theory Spec2Isabelle
  imports Complex_Main "HOL-Library.Sublist" "HOL-Library.AList"
begin

section \<open>Python exceptions as values\<close>

text \<open>
  Every \<^verbatim>\<open>raise\<close> and failing \<^verbatim>\<open>assert\<close> of the modelled functions is a value of
  this type; a function that can raise returns \<open>error + 'a\<close> with \<open>Inl\<close> the exception.
  \<open>ValueError\<close>, \<open>RuntimeError\<close>, \<open>KeyError\<close>, \<open>AttributeError\<close> and
  \<open>UnknownVariableError\<close> (pymbolic's) carry (an abbreviation of) the message or the
  missing name.
\<close>

datatype error =
    ValueError string
  | AssertionError
  | NotImplementedError
  | RuntimeError string
  | KeyError string
  | AttributeError string
  | TypeError
  | ZeroDivisionError
  | IndexError
  | UnableToInferKind
  | FailStepException
  | TODO
  | UnknownVariableError string

section \<open>Symbol kinds (leap/vm/codegen/data.py)\<close>

text \<open>
  \<^verbatim>\<open>SymbolKind\<close> and its four subclasses. Equality of kinds in the source is
  \<^verbatim>\<open>type(self) == type(other) and self.__getinitargs__() == other.__getinitargs__()\<close>,
  which is the structural equality of this datatype. \<open>Scalar\<close> and \<open>Array\<close> carry
  \<^verbatim>\<open>is_real_valued\<close>, \<open>ODEComponent\<close> carries \<^verbatim>\<open>component_id\<close>.
  A Python variable holding a kind or \<^verbatim>\<open>None\<close> is a \<open>symbol_kind option\<close>.
\<close>

datatype symbol_kind =
    Boolean
  | Scalar bool
  | Array bool
  | ODEComponent string

definition unify ::
  "symbol_kind option \<Rightarrow> symbol_kind option \<Rightarrow> error + symbol_kind option" where
  "unify kind_a kind_b =
     (case kind_a of
        None \<Rightarrow> Inr kind_b
      | Some a \<Rightarrow>
     (case kind_b of
        None \<Rightarrow> Inr kind_a
      | Some b \<Rightarrow>
        if a = Boolean then Inl (ValueError ''arithmetic with flags is not permitted'')
        else if b = Boolean then Inl (ValueError ''arithmetic with flags is not permitted'')
        else
          (case a of
             ODEComponent ca \<Rightarrow>
               (case b of
                  ODEComponent cb \<Rightarrow>
                    if ca \<noteq> cb
                    then Inl (ValueError ''encountered arithmetic with mismatched ODE components'')
                    else Inr kind_a
                | Scalar rb \<Rightarrow> Inr kind_a
                | _ \<Rightarrow> Inl AssertionError)
           | Array ra \<Rightarrow>
               (case b of
                  Array rb \<Rightarrow> Inr (Some (Array (\<not> (\<not> ra \<or> \<not> rb))))
                | Scalar rb \<Rightarrow> Inr (Some (Array (\<not> (\<not> ra \<or> \<not> rb))))
                | _ \<Rightarrow> Inl AssertionError)
           | Scalar ra \<Rightarrow>
               (case b of
                  ODEComponent cb \<Rightarrow> Inr kind_b
                | Array rb \<Rightarrow> Inr (Some (Array (\<not> (\<not> ra \<or> \<not> rb))))
                | Scalar rb \<Rightarrow> Inr (Some (Scalar (\<not> (\<not> ra \<or> \<not> rb))))
                | Boolean \<Rightarrow> Inl AssertionError)
           | Boolean \<Rightarrow> Inl NotImplementedError)))"

subsection \<open>The kind table\<close>

text \<open>
  \<^verbatim>\<open>SymbolKindTable\<close>: a global dictionary and one dictionary per function. The
  values are whatever \<^verbatim>\<open>set\<close> is given, including \<^verbatim>\<open>None\<close> (which
  \<^verbatim>\<open>KindInferenceMapper.map_power\<close> returns), hence \<open>symbol_kind option\<close>.
\<close>

type_synonym kind_dict = "string \<rightharpoonup> symbol_kind option"

record SymbolKindTable =
  global_table :: kind_dict
  per_function_table :: "string \<rightharpoonup> kind_dict"

definition SymbolKindTable_init :: SymbolKindTable where
  "SymbolKindTable_init =
     \<lparr> global_table = [''<t>'' \<mapsto> Some (Scalar True), ''<dt>'' \<mapsto> Some (Scalar True)],
       per_function_table = Map.empty \<rparr>"

text \<open>
  \<^verbatim>\<open>per_function_table.setdefault(func_name, {})\<close>: the table after the call (an empty
  dictionary is inserted when the function has none yet) and the dictionary returned.
\<close>

definition setdefault_table :: "(string \<rightharpoonup> kind_dict) \<Rightarrow> string \<Rightarrow> (string \<rightharpoonup> kind_dict) \<times> kind_dict" where
  "setdefault_table pft func_name =
     (case pft func_name of
        None \<Rightarrow> (pft(func_name \<mapsto> Map.empty), Map.empty)
      | Some tbl \<Rightarrow> (pft, tbl))"

text \<open>
  \<^verbatim>\<open>SymbolKindTable.set\<close>. The helper \<^verbatim>\<open>is_state_variable\<close> (leap/vm/utils.py) is
  outside the code modelled here and is a parameter. The method mutates the table and may raise:
  the model returns the outcome together with the table as the call leaves it, so that
  what a raising call has written is visible.
\<close>

definition set_kind ::
  "(string \<Rightarrow> bool) \<Rightarrow> SymbolKindTable \<Rightarrow> string \<Rightarrow> string \<Rightarrow> symbol_kind option
     \<Rightarrow> (error + unit) \<times> SymbolKindTable" where
  "set_kind is_state_variable self func_name name kind =
     (if is_state_variable name then
        (let tbl = global_table self in
         case tbl name of
           Some recorded \<Rightarrow>
             if recorded \<noteq> kind then (Inl (RuntimeError ''inconsistent kind derived''), self)
             else (Inr (), self)
         | None \<Rightarrow> (Inr (), self\<lparr>global_table := tbl(name \<mapsto> kind)\<rparr>))
      else
        (let (pft, tbl) = setdefault_table (per_function_table self) func_name in
         case tbl name of
           Some recorded \<Rightarrow>
             if recorded \<noteq> kind
             then (Inl (RuntimeError ''inconsistent kind derived''), self\<lparr>per_function_table := pft\<rparr>)
             else (Inr (), self\<lparr>per_function_table := pft\<rparr>)
         | None \<Rightarrow> (Inr (), self\<lparr>per_function_table := pft(func_name \<mapsto> tbl(name \<mapsto> kind))\<rparr>)))"

text \<open>
  The entry of the table that \<^verbatim>\<open>set\<close> consults for a name: the global dictionary for
  a state variable, the owning function's dictionary otherwise (\<open>None\<close>: nothing
  recorded).
\<close>

definition recorded_kind ::
  "(string \<Rightarrow> bool) \<Rightarrow> SymbolKindTable \<Rightarrow> string \<Rightarrow> string \<Rightarrow> symbol_kind option option" where
  "recorded_kind is_state_variable self func_name name =
     (if is_state_variable name then global_table self name
      else (case per_function_table self func_name of
              None \<Rightarrow> None
            | Some tbl \<Rightarrow> tbl name))"

section \<open>Expressions (pymbolic primitives used by dagrt and leap)\<close>

text \<open>
  The nodes of a pymbolic expression tree that the modelled code dispatches on. A
  numeric literal is a Python number: \<open>PyReal\<close> for an int or a float, \<open>PyComplex\<close> for a
  complex, which is all that \<^verbatim>\<open>KindInferenceMapper.map_constant\<close> asks of it. The
  function of a call is an expression, a \<open>Variable\<close> wherever the code reads
  \<^verbatim>\<open>expr.function.name\<close>. \<^verbatim>\<open>kw_parameters\<close> is a dictionary, listed here in the order in
  which it is iterated.
\<close>

datatype literal = PyReal real | PyComplex complex

datatype expr =
    Constant literal
  | Variable string
  | Sum "expr list"
  | Product "expr list"
  | Quotient expr expr
  | Power expr expr
  | Call expr "expr list"
  | CallWithKwargs expr "expr list" "(string \<times> expr) list"
  | Subscript expr expr
  | Comparison expr string expr
  | LogicalOr "expr list"
  | LogicalAnd "expr list"
  | LogicalNot expr
  | Max "expr list"
  | Min "expr list"
  | IfThenElse expr expr expr

text \<open>
  The evaluator applies Python's operators to run-time values (floats, numpy arrays,
  function objects, \<^verbatim>\<open>None\<close>). Neither the values nor the operators are the
  repository's, so they are a parameter: \<open>'v\<close> is the type of values and the record
  gives the literals, \<^verbatim>\<open>None\<close>, the integers and booleans the evaluator itself
  produces, the binary operators (which may raise), truthiness, and the call of a
  function object with positional and keyword arguments.
\<close>

record 'v py_ops =
  py_const :: "literal \<Rightarrow> 'v"
  py_none :: 'v
  py_int :: "int \<Rightarrow> 'v"
  py_bool :: "bool \<Rightarrow> 'v"
  py_add :: "'v \<Rightarrow> 'v \<Rightarrow> error + 'v"
  py_mul :: "'v \<Rightarrow> 'v \<Rightarrow> error + 'v"
  py_truediv :: "'v \<Rightarrow> 'v \<Rightarrow> error + 'v"
  py_pow :: "'v \<Rightarrow> 'v \<Rightarrow> error + 'v"
  py_getitem :: "'v \<Rightarrow> 'v \<Rightarrow> error + 'v"
  py_compare :: "string \<Rightarrow> 'v \<Rightarrow> 'v \<Rightarrow> error + 'v"
  py_truth :: "'v \<Rightarrow> error + bool"
  py_max :: "'v \<Rightarrow> 'v \<Rightarrow> error + 'v"
  py_min :: "'v \<Rightarrow> 'v \<Rightarrow> error + 'v"
  py_call :: "'v \<Rightarrow> 'v list \<Rightarrow> (string \<times> 'v) list \<Rightarrow> error + 'v"

text \<open>\<^verbatim>\<open>expr.function.name\<close>: only a \<open>Variable\<close> has the attribute.\<close>

definition function_name :: "expr \<Rightarrow> error + string" where
  "function_name f = (case f of Variable name \<Rightarrow> Inr name | _ \<Rightarrow> Inl (AttributeError ''name''))"

text \<open>
  Evaluating an expression has no effect on the context, so evaluating all children
  and then combining their results in order gives the result, and the first exception,
  of the source's generator expressions. \<open>fold_results\<close> is \<^verbatim>\<open>sum\<close>,
  \<^verbatim>\<open>pytools.product\<close> and \<^verbatim>\<open>reduce\<close>; \<open>all_results\<close> collects the arguments of a call;
  \<open>any_results\<close> and \<open>all_true_results\<close> are \<^verbatim>\<open>any\<close> and \<^verbatim>\<open>all\<close>, which stop at
  the first decisive child.
\<close>

fun fold_results :: "('v \<Rightarrow> 'v \<Rightarrow> error + 'v) \<Rightarrow> (error + 'v) list \<Rightarrow> 'v \<Rightarrow> error + 'v" where
  "fold_results f [] acc = Inr acc"
| "fold_results f (r # rs) acc =
     (case r of
        Inl e \<Rightarrow> Inl e
      | Inr v \<Rightarrow> (case f acc v of Inl e \<Rightarrow> Inl e | Inr acc' \<Rightarrow> fold_results f rs acc'))"

fun all_results :: "(error + 'a) list \<Rightarrow> error + 'a list" where
  "all_results [] = Inr []"
| "all_results (r # rs) =
     (case r of
        Inl e \<Rightarrow> Inl e
      | Inr v \<Rightarrow> (case all_results rs of Inl e \<Rightarrow> Inl e | Inr vs \<Rightarrow> Inr (v # vs)))"

fun any_results :: "('v \<Rightarrow> error + bool) \<Rightarrow> (error + 'v) list \<Rightarrow> error + bool" where
  "any_results truth [] = Inr False"
| "any_results truth (r # rs) =
     (case r of
        Inl e \<Rightarrow> Inl e
      | Inr v \<Rightarrow>
          (case truth v of
             Inl e \<Rightarrow> Inl e
           | Inr b \<Rightarrow> if b then Inr True else any_results truth rs))"

fun all_true_results :: "('v \<Rightarrow> error + bool) \<Rightarrow> (error + 'v) list \<Rightarrow> error + bool" where
  "all_true_results truth [] = Inr True"
| "all_true_results truth (r # rs) =
     (case r of
        Inl e \<Rightarrow> Inl e
      | Inr v \<Rightarrow>
          (case truth v of
             Inl e \<Rightarrow> Inl e
           | Inr b \<Rightarrow> if b then all_true_results truth rs else Inr False))"

text \<open>
  \<^verbatim>\<open>EvaluationMapper\<close> (dagrt/expression.py, lines 60-92). \<^verbatim>\<open>map_variable\<close> and
  \<^verbatim>\<open>map_generic_call\<close> are the repository's: a variable is looked up in the context,
  then in the function table, and is \<^verbatim>\<open>None\<close> otherwise (the method falls off its
  end); the callee of a call is looked up by name in the function table, ValueError
  when absent, and the keyword arguments are evaluated before the positional ones
  (a generator, consumed by the call). The other node kinds are inherited from
  pymbolic's evaluator and follow it: \<^verbatim>\<open>sum\<close> starts from the integer 0 and
  \<^verbatim>\<open>pytools.product\<close> from 1, and an if-then-else evaluates only the branch selected.
\<close>

fun evaluate :: "'v py_ops \<Rightarrow> (string \<rightharpoonup> 'v) \<Rightarrow> (string \<rightharpoonup> 'v) \<Rightarrow> expr \<Rightarrow> error + 'v" where
  "evaluate ops context functions (Constant c) = Inr (py_const ops c)"
| "evaluate ops context functions (Variable name) =
     (case context name of
        Some v \<Rightarrow> Inr v
      | None \<Rightarrow>
          (case functions name of
             Some f \<Rightarrow> Inr f
           | None \<Rightarrow> Inr (py_none ops)))"
| "evaluate ops context functions (Sum children) =
     fold_results (py_add ops) (map (evaluate ops context functions) children) (py_int ops 0)"
| "evaluate ops context functions (Product children) =
     fold_results (py_mul ops) (map (evaluate ops context functions) children) (py_int ops 1)"
| "evaluate ops context functions (Quotient numerator denominator) =
     (case evaluate ops context functions numerator of
        Inl e \<Rightarrow> Inl e
      | Inr n \<Rightarrow>
          (case evaluate ops context functions denominator of
             Inl e \<Rightarrow> Inl e
           | Inr d \<Rightarrow> py_truediv ops n d))"
| "evaluate ops context functions (Power base exponent) =
     (case evaluate ops context functions base of
        Inl e \<Rightarrow> Inl e
      | Inr b \<Rightarrow>
          (case evaluate ops context functions exponent of
             Inl e \<Rightarrow> Inl e
           | Inr x \<Rightarrow> py_pow ops b x))"
| "evaluate ops context functions (Call function parameters) =
     (case function_name function of
        Inl e \<Rightarrow> Inl e
      | Inr name \<Rightarrow>
          (case functions name of
             None \<Rightarrow> Inl (ValueError ''Call to unknown function'')
           | Some f \<Rightarrow>
               (case all_results (map (evaluate ops context functions) parameters) of
                  Inl e \<Rightarrow> Inl e
                | Inr args \<Rightarrow> py_call ops f args [])))"
| "evaluate ops context functions (CallWithKwargs function parameters kw_parameters) =
     (case function_name function of
        Inl e \<Rightarrow> Inl e
      | Inr name \<Rightarrow>
          (case functions name of
             None \<Rightarrow> Inl (ValueError ''Call to unknown function'')
           | Some f \<Rightarrow>
               (case all_results (map (\<lambda>kv. map_sum id (Pair (fst kv))
                                      (evaluate ops context functions (snd kv))) kw_parameters) of
                  Inl e \<Rightarrow> Inl e
                | Inr kwargs \<Rightarrow>
                    (case all_results (map (evaluate ops context functions) parameters) of
                       Inl e \<Rightarrow> Inl e
                     | Inr args \<Rightarrow> py_call ops f args kwargs))))"
| "evaluate ops context functions (Subscript aggregate index) =
     (case evaluate ops context functions aggregate of
        Inl e \<Rightarrow> Inl e
      | Inr a \<Rightarrow>
          (case evaluate ops context functions index of
             Inl e \<Rightarrow> Inl e
           | Inr i \<Rightarrow> py_getitem ops a i))"
| "evaluate ops context functions (Comparison left operator right) =
     (case evaluate ops context functions left of
        Inl e \<Rightarrow> Inl e
      | Inr l \<Rightarrow>
          (case evaluate ops context functions right of
             Inl e \<Rightarrow> Inl e
           | Inr r \<Rightarrow> py_compare ops operator l r))"
| "evaluate ops context functions (LogicalOr children) =
     map_sum id (py_bool ops)
       (any_results (py_truth ops) (map (evaluate ops context functions) children))"
| "evaluate ops context functions (LogicalAnd children) =
     map_sum id (py_bool ops)
       (all_true_results (py_truth ops) (map (evaluate ops context functions) children))"
| "evaluate ops context functions (LogicalNot child) =
     (case evaluate ops context functions child of
        Inl e \<Rightarrow> Inl e
      | Inr v \<Rightarrow> map_sum id (\<lambda>b. py_bool ops (\<not> b)) (py_truth ops v))"
| "evaluate ops context functions (Max children) =
     (case map (evaluate ops context functions) children of
        [] \<Rightarrow> Inl (ValueError ''max of an empty sequence'')
      | Inl e # rs \<Rightarrow> Inl e
      | Inr v # rs \<Rightarrow> fold_results (py_max ops) rs v)"
| "evaluate ops context functions (Min children) =
     (case map (evaluate ops context functions) children of
        [] \<Rightarrow> Inl (ValueError ''min of an empty sequence'')
      | Inl e # rs \<Rightarrow> Inl e
      | Inr v # rs \<Rightarrow> fold_results (py_min ops) rs v)"
| "evaluate ops context functions (IfThenElse condition then_branch else_branch) =
     (case evaluate ops context functions condition of
        Inl e \<Rightarrow> Inl e
      | Inr c \<Rightarrow>
          (case py_truth ops c of
             Inl e \<Rightarrow> Inl e
           | Inr b \<Rightarrow>
               if b then evaluate ops context functions then_branch
               else evaluate ops context functions else_branch))"

text \<open>
  pymbolic's own \<^verbatim>\<open>EvaluationMapper\<close>, which dagrt imports as
  \<^verbatim>\<open>EvaluationMapperBase\<close> and which the interpreter of leap/vm/exec_numpy.py uses as
  it is. It differs from the subclass above in the two methods the subclass overrides:
  a variable is looked up in the context and raises \<^verbatim>\<open>UnknownVariableError\<close> when
  absent; the callee of a call is an expression, evaluated like any other (before the
  arguments in \<^verbatim>\<open>map_call\<close>, after them in \<^verbatim>\<open>map_call_with_kwargs\<close>) and then
  called.
\<close>

fun EvaluationMapperBase :: "'v py_ops \<Rightarrow> (string \<rightharpoonup> 'v) \<Rightarrow> expr \<Rightarrow> error + 'v" where
  "EvaluationMapperBase ops context (Constant c) = Inr (py_const ops c)"
| "EvaluationMapperBase ops context (Variable name) =
     (case context name of
        Some v \<Rightarrow> Inr v
      | None \<Rightarrow> Inl (UnknownVariableError name))"
| "EvaluationMapperBase ops context (Sum children) =
     fold_results (py_add ops) (map (EvaluationMapperBase ops context) children) (py_int ops 0)"
| "EvaluationMapperBase ops context (Product children) =
     fold_results (py_mul ops) (map (EvaluationMapperBase ops context) children) (py_int ops 1)"
| "EvaluationMapperBase ops context (Quotient numerator denominator) =
     (case EvaluationMapperBase ops context numerator of
        Inl e \<Rightarrow> Inl e
      | Inr n \<Rightarrow>
          (case EvaluationMapperBase ops context denominator of
             Inl e \<Rightarrow> Inl e
           | Inr d \<Rightarrow> py_truediv ops n d))"
| "EvaluationMapperBase ops context (Power base exponent) =
     (case EvaluationMapperBase ops context base of
        Inl e \<Rightarrow> Inl e
      | Inr b \<Rightarrow>
          (case EvaluationMapperBase ops context exponent of
             Inl e \<Rightarrow> Inl e
           | Inr x \<Rightarrow> py_pow ops b x))"
| "EvaluationMapperBase ops context (Call function parameters) =
     (case EvaluationMapperBase ops context function of
        Inl e \<Rightarrow> Inl e
      | Inr f \<Rightarrow>
          (case all_results (map (EvaluationMapperBase ops context) parameters) of
             Inl e \<Rightarrow> Inl e
           | Inr args \<Rightarrow> py_call ops f args []))"
| "EvaluationMapperBase ops context (CallWithKwargs function parameters kw_parameters) =
     (case all_results (map (EvaluationMapperBase ops context) parameters) of
        Inl e \<Rightarrow> Inl e
      | Inr args \<Rightarrow>
          (case all_results (map (\<lambda>kv. map_sum id (Pair (fst kv))
                                 (EvaluationMapperBase ops context (snd kv))) kw_parameters) of
             Inl e \<Rightarrow> Inl e
           | Inr kwargs \<Rightarrow>
               (case EvaluationMapperBase ops context function of
                  Inl e \<Rightarrow> Inl e
                | Inr f \<Rightarrow> py_call ops f args kwargs)))"
| "EvaluationMapperBase ops context (Subscript aggregate index) =
     (case EvaluationMapperBase ops context aggregate of
        Inl e \<Rightarrow> Inl e
      | Inr a \<Rightarrow>
          (case EvaluationMapperBase ops context index of
             Inl e \<Rightarrow> Inl e
           | Inr i \<Rightarrow> py_getitem ops a i))"
| "EvaluationMapperBase ops context (Comparison left operator right) =
     (case EvaluationMapperBase ops context left of
        Inl e \<Rightarrow> Inl e
      | Inr l \<Rightarrow>
          (case EvaluationMapperBase ops context right of
             Inl e \<Rightarrow> Inl e
           | Inr r \<Rightarrow> py_compare ops operator l r))"
| "EvaluationMapperBase ops context (LogicalOr children) =
     map_sum id (py_bool ops)
       (any_results (py_truth ops) (map (EvaluationMapperBase ops context) children))"
| "EvaluationMapperBase ops context (LogicalAnd children) =
     map_sum id (py_bool ops)
       (all_true_results (py_truth ops) (map (EvaluationMapperBase ops context) children))"
| "EvaluationMapperBase ops context (LogicalNot child) =
     (case EvaluationMapperBase ops context child of
        Inl e \<Rightarrow> Inl e
      | Inr v \<Rightarrow> map_sum id (\<lambda>b. py_bool ops (\<not> b)) (py_truth ops v))"
| "EvaluationMapperBase ops context (Max children) =
     (case map (EvaluationMapperBase ops context) children of
        [] \<Rightarrow> Inl (ValueError ''max of an empty sequence'')
      | Inl e # rs \<Rightarrow> Inl e
      | Inr v # rs \<Rightarrow> fold_results (py_max ops) rs v)"
| "EvaluationMapperBase ops context (Min children) =
     (case map (EvaluationMapperBase ops context) children of
        [] \<Rightarrow> Inl (ValueError ''min of an empty sequence'')
      | Inl e # rs \<Rightarrow> Inl e
      | Inr v # rs \<Rightarrow> fold_results (py_min ops) rs v)"
| "EvaluationMapperBase ops context (IfThenElse condition then_branch else_branch) =
     (case EvaluationMapperBase ops context condition of
        Inl e \<Rightarrow> Inl e
      | Inr c \<Rightarrow>
          (case py_truth ops c of
             Inl e \<Rightarrow> Inl e
           | Inr b \<Rightarrow>
               if b then EvaluationMapperBase ops context then_branch
               else EvaluationMapperBase ops context else_branch))"

section \<open>Kind inference (leap/vm/codegen/data.py)\<close>

text \<open>
  Unifying a list of kinds in order, starting from the kind unified so far
  (\<^verbatim>\<open>None\<close>: nothing yet) and stopping at the first error: what "the result unifies
  the kinds of the operands" says, to compare with the loops of the mapper.
\<close>

fun unify_all :: "symbol_kind option list \<Rightarrow> symbol_kind option \<Rightarrow> error + symbol_kind option" where
  "unify_all [] kind = Inr kind"
| "unify_all (k # ks) kind =
     (case unify kind k of Inl e \<Rightarrow> Inl e | Inr kind' \<Rightarrow> unify_all ks kind')"

text \<open>
  \<^verbatim>\<open>KindInferenceMapper\<close> (lines 197-326). The function registry maps a function
  identifier to its \<^verbatim>\<open>get_result_kind\<close>, applied to the dictionary of argument kinds;
  the keys of that dictionary are positions and keyword names.
\<close>

datatype arg_key = Positional nat | Keyword string

type_synonym function_registry =
  "string \<rightharpoonup> ((arg_key \<times> symbol_kind option) list \<Rightarrow> error + symbol_kind option)"

text \<open>
  The loops of \<^verbatim>\<open>map_sum\<close> (lines 233-246) and \<^verbatim>\<open>map_product_like\<close> (lines 248-253)
  over the results of \<^verbatim>\<open>self.rec(ch)\<close>, with the kind unified so far. \<^verbatim>\<open>map_sum\<close>
  catches cannot-infer-yet from a child and goes on; every other exception, from a
  child or from \<^verbatim>\<open>unify\<close>, leaves the loop; after the loop a kind that is still
  \<^verbatim>\<open>None\<close> raises cannot-infer-yet. \<^verbatim>\<open>map_product_like\<close> catches nothing.
\<close>

fun map_sum_loop :: "(error + symbol_kind option) list \<Rightarrow> symbol_kind option \<Rightarrow> error + symbol_kind option" where
  "map_sum_loop [] kind = (case kind of None \<Rightarrow> Inl UnableToInferKind | Some k \<Rightarrow> Inr kind)"
| "map_sum_loop (r # rest) kind =
     (case r of
        Inl e \<Rightarrow> if e = UnableToInferKind then map_sum_loop rest kind else Inl e
      | Inr ch_kind \<Rightarrow>
          (case unify kind ch_kind of
             Inl e \<Rightarrow> Inl e
           | Inr kind' \<Rightarrow> map_sum_loop rest kind'))"

fun map_product_like :: "(error + symbol_kind option) list \<Rightarrow> symbol_kind option \<Rightarrow> error + symbol_kind option" where
  "map_product_like [] kind = Inr kind"
| "map_product_like (r # rest) kind =
     (case r of
        Inl e \<Rightarrow> Inl e
      | Inr ch_kind \<Rightarrow>
          (case unify kind ch_kind of
             Inl e \<Rightarrow> Inl e
           | Inr kind' \<Rightarrow> map_product_like rest kind'))"

text \<open>
  \<^verbatim>\<open>map_generic_call\<close> (lines 268-278): an argument whose kind cannot be inferred yet
  is passed as \<^verbatim>\<open>None\<close>; a function missing from the registry is a KeyError.
\<close>

fun arg_kinds_loop :: "(arg_key \<times> (error + symbol_kind option)) list
    \<Rightarrow> error + (arg_key \<times> symbol_kind option) list" where
  "arg_kinds_loop [] = Inr []"
| "arg_kinds_loop ((key, r) # rest) =
     (case (case r of
              Inl e \<Rightarrow> if e = UnableToInferKind then Inr None else Inl e
            | Inr k \<Rightarrow> Inr k) of
        Inl e \<Rightarrow> Inl e
      | Inr k \<Rightarrow>
          (case arg_kinds_loop rest of
             Inl e \<Rightarrow> Inl e
           | Inr ks \<Rightarrow> Inr ((key, k) # ks)))"

definition map_generic_call :: "function_registry \<Rightarrow> string
    \<Rightarrow> (arg_key \<times> (error + symbol_kind option)) list \<Rightarrow> error + symbol_kind option" where
  "map_generic_call function_registry function_id arg_dict =
     (case function_registry function_id of
        None \<Rightarrow> Inl (KeyError function_id)
      | Some get_result_kind \<Rightarrow>
          (case arg_kinds_loop arg_dict of
             Inl e \<Rightarrow> Inl e
           | Inr arg_kinds \<Rightarrow> get_result_kind arg_kinds))"

text \<open>\<^verbatim>\<open>map_logical_or\<close>, \<^verbatim>\<open>map_logical_and\<close> and \<^verbatim>\<open>map_logical_not\<close>: every child must be Boolean.\<close>

fun map_logical_loop :: "(error + symbol_kind option) list \<Rightarrow> error + symbol_kind option" where
  "map_logical_loop [] = Inr (Some Boolean)"
| "map_logical_loop (r # rest) =
     (case r of
        Inl e \<Rightarrow> Inl e
      | Inr ch_kind \<Rightarrow>
          if ch_kind \<noteq> Some Boolean
          then Inl (ValueError ''logical operations are undefined'')
          else map_logical_loop rest)"

text \<open>\<^verbatim>\<open>dict(enumerate(expr.parameters))\<close>.\<close>

definition enumerate_params :: "'a list \<Rightarrow> (arg_key \<times> 'a) list" where
  "enumerate_params xs = zip (map Positional [0..<length xs]) xs"

text \<open>
  The mapper, applied to the global dictionary and to the dictionary of the function
  being processed. \<^verbatim>\<open>map_power\<close> checks that the exponent is a Scalar and returns
  nothing, that is \<^verbatim>\<open>None\<close>. A comparison is Boolean whatever its operands. The
  mapper has no method for an if-then-else, which pymbolic reports as a ValueError.
\<close>

fun KindInferenceMapper :: "function_registry \<Rightarrow> kind_dict \<Rightarrow> kind_dict \<Rightarrow> expr
    \<Rightarrow> error + symbol_kind option" where
  "KindInferenceMapper reg global_tbl local_tbl (Constant c) =
     (case c of
        PyComplex z \<Rightarrow> Inr (Some (Scalar False))
      | PyReal x \<Rightarrow> Inr (Some (Scalar True)))"
| "KindInferenceMapper reg global_tbl local_tbl (Variable name) =
     (case global_tbl name of
        Some kind \<Rightarrow> Inr kind
      | None \<Rightarrow>
          (case local_tbl name of
             Some kind \<Rightarrow> Inr kind
           | None \<Rightarrow> Inl UnableToInferKind))"
| "KindInferenceMapper reg global_tbl local_tbl (Sum children) =
     map_sum_loop (map (KindInferenceMapper reg global_tbl local_tbl) children) None"
| "KindInferenceMapper reg global_tbl local_tbl (Product children) =
     map_product_like (map (KindInferenceMapper reg global_tbl local_tbl) children) None"
| "KindInferenceMapper reg global_tbl local_tbl (Quotient numerator denominator) =
     map_product_like
       [KindInferenceMapper reg global_tbl local_tbl numerator,
        KindInferenceMapper reg global_tbl local_tbl denominator] None"
| "KindInferenceMapper reg global_tbl local_tbl (Power base exponent) =
     (case KindInferenceMapper reg global_tbl local_tbl exponent of
        Inl e \<Rightarrow> Inl e
      | Inr kind \<Rightarrow>
          (case kind of
             Some (Scalar r) \<Rightarrow> Inr None
           | _ \<Rightarrow> Inl (ValueError ''exponentiation is meaningless'')))"
| "KindInferenceMapper reg global_tbl local_tbl (Call function parameters) =
     (case function_name function of
        Inl e \<Rightarrow> Inl e
      | Inr name \<Rightarrow>
          map_generic_call reg name
            (enumerate_params (map (KindInferenceMapper reg global_tbl local_tbl) parameters)))"
| "KindInferenceMapper reg global_tbl local_tbl (CallWithKwargs function parameters kw_parameters) =
     (case function_name function of
        Inl e \<Rightarrow> Inl e
      | Inr name \<Rightarrow>
          map_generic_call reg name
            (enumerate_params (map (KindInferenceMapper reg global_tbl local_tbl) parameters)
             @ map (\<lambda>kv. (Keyword (fst kv), KindInferenceMapper reg global_tbl local_tbl (snd kv)))
                 kw_parameters))"
| "KindInferenceMapper reg global_tbl local_tbl (Subscript aggregate index) =
     (case KindInferenceMapper reg global_tbl local_tbl aggregate of
        Inl e \<Rightarrow> Inl e
      | Inr agg_kind \<Rightarrow>
          (case agg_kind of
             Some (Array r) \<Rightarrow> Inr (Some (Scalar r))
           | _ \<Rightarrow> Inl (ValueError ''only arrays can be subscripted'')))"
| "KindInferenceMapper reg global_tbl local_tbl (Comparison left operator right) =
     Inr (Some Boolean)"
| "KindInferenceMapper reg global_tbl local_tbl (LogicalOr children) =
     map_logical_loop (map (KindInferenceMapper reg global_tbl local_tbl) children)"
| "KindInferenceMapper reg global_tbl local_tbl (LogicalAnd children) =
     map_logical_loop (map (KindInferenceMapper reg global_tbl local_tbl) children)"
| "KindInferenceMapper reg global_tbl local_tbl (LogicalNot child) =
     map_logical_loop [KindInferenceMapper reg global_tbl local_tbl child]"
| "KindInferenceMapper reg global_tbl local_tbl (Max children) = Inr (Some (Scalar True))"
| "KindInferenceMapper reg global_tbl local_tbl (Min children) = Inr (Some (Scalar True))"
| "KindInferenceMapper reg global_tbl local_tbl (IfThenElse condition then_branch else_branch) =
     Inl (ValueError ''cannot handle expressions of this type'')"

subsection \<open>The whole-program solver\<close>

text \<open>
  \<^verbatim>\<open>SymbolKindFinder.__call__\<close> (lines 337-386). Only \<^verbatim>\<open>AssignExpression\<close> (assignee and
  expression) and \<^verbatim>\<open>AssignSolved\<close> are told apart; every other instruction is skipped.
  The state of the loop is its four local variables. \<^verbatim>\<open>insn_queue.pop()\<close> takes the
  last element. One iteration either ends the loop (the table is returned, "failed to
  infer types" is raised, or an exception of the instruction being processed
  propagates) or gives the next state.
\<close>

datatype instruction =
    AssignExpression string expr
  | AssignSolved
  | OtherInstruction

record finder_state =
  insn_queue :: "(string \<times> instruction) list"
  insn_queue_push_buffer :: "(string \<times> instruction) list"
  made_progress :: bool
  result :: SymbolKindTable

datatype finder_outcome =
    Return SymbolKindTable
  | FailedToInferTypes
  | Propagate error
  | Next finder_state

definition process_instruction ::
  "function_registry \<Rightarrow> (string \<Rightarrow> bool) \<Rightarrow> finder_state \<Rightarrow> finder_outcome" where
  "process_instruction function_registry is_state_variable s =
     (let (func_name, insn) = last (insn_queue s);
          s = s\<lparr>insn_queue := butlast (insn_queue s)\<rparr>
      in case insn of
           AssignSolved \<Rightarrow> Propagate TODO
         | AssignExpression assignee expression \<Rightarrow>
             (case KindInferenceMapper function_registry
                     (global_table (result s))
                     (case per_function_table (result s) func_name of
                        None \<Rightarrow> Map.empty
                      | Some tbl \<Rightarrow> tbl)
                     expression of
                Inl e \<Rightarrow>
                  if e = UnableToInferKind
                  then Next (s\<lparr>insn_queue_push_buffer :=
                                  insn_queue_push_buffer s @ [(func_name, insn)]\<rparr>)
                  else Propagate e
              | Inr kind \<Rightarrow>
                  (case set_kind is_state_variable (result s) func_name assignee kind of
                     (Inl e, tbl) \<Rightarrow> Propagate e
                   | (Inr u, tbl) \<Rightarrow> Next (s\<lparr>made_progress := True, result := tbl\<rparr>)))
         | OtherInstruction \<Rightarrow> Next s)"

definition finder_step :: "function_registry \<Rightarrow> (string \<Rightarrow> bool) \<Rightarrow> finder_state \<Rightarrow> finder_outcome" where
  "finder_step function_registry is_state_variable s =
     (if insn_queue s = [] \<and> insn_queue_push_buffer s = [] then Return (result s)
      else if insn_queue s = [] then
        (if \<not> made_progress s then FailedToInferTypes
         else process_instruction function_registry is_state_variable
                (s\<lparr>insn_queue := insn_queue_push_buffer s,
                   insn_queue_push_buffer := [],
                   made_progress := False\<rparr>))
      else process_instruction function_registry is_state_variable s)"

text \<open>
  The instructions not yet resolved, and the measure that decreases with every
  iteration: the number unresolved, then the progress flag (the swap of the queues
  clears it), then the length of the primary queue.
\<close>

definition unresolved :: "finder_state \<Rightarrow> nat" where
  "unresolved s = length (insn_queue s) + length (insn_queue_push_buffer s)"

definition finder_measure :: "(finder_state \<times> finder_state) set" where
  "finder_measure =
     inv_image (less_than <*lex*> less_than <*lex*> less_than)
       (\<lambda>s. (unresolved s, if made_progress s then 1 else 0 :: nat, length (insn_queue s)))"

lemma process_instruction_measure:
  assumes "process_instruction reg isv s = Next s'" and "insn_queue s \<noteq> []"
  shows "unresolved s' < unresolved s
       \<or> unresolved s' = unresolved s \<and> made_progress s' = made_progress s
          \<and> length (insn_queue s') < length (insn_queue s)"
  using assms
  by (cases "last (insn_queue s)")
     (auto simp add: process_instruction_def unresolved_def Let_def
           split: instruction.splits sum.splits if_splits prod.splits)

lemma finder_step_decreases:
  assumes "finder_step reg isv s = Next s'"
  shows "(s', s) \<in> finder_measure"
proof (cases "insn_queue s = []")
  case False
  with assms have "process_instruction reg isv s = Next s'"
    by (simp add: finder_step_def)
  from process_instruction_measure [OF this False] show ?thesis
    by (auto simp add: finder_measure_def)
next
  case True
  let ?t = "s\<lparr>insn_queue := insn_queue_push_buffer s, insn_queue_push_buffer := [],
                made_progress := False\<rparr>"
  from True assms have buf: "insn_queue_push_buffer s \<noteq> []" and mp: "made_progress s"
    and p: "process_instruction reg isv ?t = Next s'"
    by (auto simp add: finder_step_def split: if_splits)
  from buf have "insn_queue ?t \<noteq> []" by simp
  from process_instruction_measure [OF p this] True mp show ?thesis
    by (auto simp add: finder_measure_def unresolved_def)
qed

text \<open>The \<^verbatim>\<open>while\<close> loop, total by the measure above.\<close>

function finder_loop :: "function_registry \<Rightarrow> (string \<Rightarrow> bool) \<Rightarrow> finder_state \<Rightarrow> finder_outcome" where
  "finder_loop function_registry is_state_variable s =
     (case finder_step function_registry is_state_variable s of
        Next s' \<Rightarrow> finder_loop function_registry is_state_variable s'
      | outcome \<Rightarrow> outcome)"
  by pat_completeness auto
termination
proof (relation "inv_image finder_measure (\<lambda>(reg, isv, s). s)")
  show "wf (inv_image finder_measure (\<lambda>(reg, isv, s). s))"
    by (auto simp add: finder_measure_def)
qed (simp add: finder_step_decreases)

declare finder_loop.simps [simp del]

text \<open>
  The states the loop passes through, at the head of the \<^verbatim>\<open>while\<close>: \<open>s'\<close> is reached
  from \<open>s\<close> after zero or more iterations.
\<close>

inductive finder_reaches :: "function_registry \<Rightarrow> (string \<Rightarrow> bool) \<Rightarrow> finder_state \<Rightarrow> finder_state \<Rightarrow> bool"
  for function_registry is_state_variable where
    here: "finder_reaches function_registry is_state_variable s s"
  | later: "finder_step function_registry is_state_variable s = Next s1 \<Longrightarrow>
            finder_reaches function_registry is_state_variable s1 s' \<Longrightarrow>
            finder_reaches function_registry is_state_variable s s'"

text \<open>
  The call itself: the queue starts with the instructions of every function paired
  with the function's name (\<^verbatim>\<open>get_instructions_in_ast\<close>, outside the code modelled here, has
  already listed them), the table with \<^verbatim>\<open><t>\<close> and \<^verbatim>\<open><dt>\<close>.
\<close>

definition SymbolKindFinder ::
  "function_registry \<Rightarrow> (string \<Rightarrow> bool) \<Rightarrow> string list \<Rightarrow> instruction list list \<Rightarrow> finder_outcome" where
  "SymbolKindFinder function_registry is_state_variable names functions =
     finder_loop function_registry is_state_variable
       \<lparr> insn_queue = concat (map (\<lambda>(name, func). map (Pair name) func) (zip names functions)),
         insn_queue_push_buffer = [],
         made_progress = False,
         result = SymbolKindTable_init \<rparr>"

section \<open>Constant collapsing (dagrt/expression.py)\<close>

text \<open>
  \<^verbatim>\<open>_ConstantFindingMapper\<close> (lines 95-134): a subexpression is constant when no free
  variable occurs in it. \<^verbatim>\<open>combine\<close> is \<^verbatim>\<open>reduce(operator.and_, exprs)\<close>, a TypeError
  on an empty sequence. \<^verbatim>\<open>free_variables\<close> lists variables; a variable is compared by
  its name. The dictionary \<^verbatim>\<open>is_constant\<close> is keyed by expressions, equal when
  structurally equal, so a lookup is the value the mapper computes for the key.
\<close>

fun reduce_and :: "bool list \<Rightarrow> error + bool" where
  "reduce_and [] = Inl TypeError"
| "reduce_and (b # bs) = Inr (foldl (\<and>) b bs)"

definition combine :: "(error + bool) list \<Rightarrow> error + bool" where
  "combine exprs = (case all_results exprs of Inl e \<Rightarrow> Inl e | Inr bs \<Rightarrow> reduce_and bs)"

fun ConstantFindingMapper :: "string list \<Rightarrow> expr \<Rightarrow> error + bool" where
  "ConstantFindingMapper free_variables (Constant c) = Inr True"
| "ConstantFindingMapper free_variables (Variable name) = Inr (name \<notin> set free_variables)"
| "ConstantFindingMapper free_variables (Sum children) =
     combine (map (ConstantFindingMapper free_variables) children)"
| "ConstantFindingMapper free_variables (Product children) =
     combine (map (ConstantFindingMapper free_variables) children)"
| "ConstantFindingMapper free_variables (Quotient numerator denominator) =
     combine [ConstantFindingMapper free_variables numerator,
              ConstantFindingMapper free_variables denominator]"
| "ConstantFindingMapper free_variables (Power base exponent) =
     combine [ConstantFindingMapper free_variables base,
              ConstantFindingMapper free_variables exponent]"
| "ConstantFindingMapper free_variables (Call function parameters) =
     combine (ConstantFindingMapper free_variables function
              # map (ConstantFindingMapper free_variables) parameters)"
| "ConstantFindingMapper free_variables (CallWithKwargs function parameters kw_parameters) =
     combine (ConstantFindingMapper free_variables function
              # map (ConstantFindingMapper free_variables) parameters
              @ map (\<lambda>kv. ConstantFindingMapper free_variables (snd kv)) kw_parameters)"
| "ConstantFindingMapper free_variables (Subscript aggregate index) =
     combine [ConstantFindingMapper free_variables aggregate,
              ConstantFindingMapper free_variables index]"
| "ConstantFindingMapper free_variables (Comparison left operator right) =
     combine [ConstantFindingMapper free_variables left,
              ConstantFindingMapper free_variables right]"
| "ConstantFindingMapper free_variables (LogicalOr children) =
     combine (map (ConstantFindingMapper free_variables) children)"
| "ConstantFindingMapper free_variables (LogicalAnd children) =
     combine (map (ConstantFindingMapper free_variables) children)"
| "ConstantFindingMapper free_variables (LogicalNot child) =
     combine [ConstantFindingMapper free_variables child]"
| "ConstantFindingMapper free_variables (Max children) =
     combine (map (ConstantFindingMapper free_variables) children)"
| "ConstantFindingMapper free_variables (Min children) =
     combine (map (ConstantFindingMapper free_variables) children)"
| "ConstantFindingMapper free_variables (IfThenElse condition then_branch else_branch) =
     combine [ConstantFindingMapper free_variables condition,
              ConstantFindingMapper free_variables then_branch,
              ConstantFindingMapper free_variables else_branch]"

definition is_constant :: "string list \<Rightarrow> expr \<Rightarrow> bool" where
  "is_constant free_variables e \<longleftrightarrow> ConstantFindingMapper free_variables e = Inr True"

text \<open>\<^verbatim>\<open>_is_atomic\<close>: a variable or a numeric literal.\<close>

definition is_atomic :: "expr \<Rightarrow> bool" where
  "is_atomic e = (case e of Variable name \<Rightarrow> True | Constant c \<Rightarrow> True | _ \<Rightarrow> False)"

text \<open>
  \<^verbatim>\<open>_ExpressionCollapsingMapper\<close> (lines 141-213). Its state is the dictionary of
  assignments, here in insertion order, and the number of calls made to
  \<^verbatim>\<open>new_var_func\<close>, whose \<open>i\<close>-th result is \<open>new_var_func i\<close>. \<open>rec_with\<close> is the
  overridden \<^verbatim>\<open>rec\<close>: an atomic or non-constant expression is dispatched to its
  \<^verbatim>\<open>map_\<close> method, a constant one is assigned to a new variable. \<open>map_state\<close> threads
  the state through the children, left to right.
\<close>

record collapsing_state =
  n_new_vars :: nat
  assignments :: "(expr \<times> expr) list"

type_synonym 'a collapsing = "collapsing_state \<Rightarrow> error + ('a \<times> collapsing_state)"

definition assign_new_var :: "(nat \<Rightarrow> expr) \<Rightarrow> expr \<Rightarrow> expr collapsing" where
  "assign_new_var new_var_func e st =
     (let new_var = new_var_func (n_new_vars st)
      in Inr (new_var,
              st\<lparr>n_new_vars := Suc (n_new_vars st),
                 assignments := AList.update new_var e (assignments st)\<rparr>))"

definition rec_with :: "string list \<Rightarrow> (nat \<Rightarrow> expr) \<Rightarrow> (expr \<Rightarrow> expr collapsing) \<Rightarrow> expr \<Rightarrow> expr collapsing" where
  "rec_with free_variables new_var_func identity_rec e st =
     (if is_atomic e \<or> \<not> is_constant free_variables e then identity_rec e st
      else assign_new_var new_var_func e st)"

fun map_state :: "('a \<Rightarrow> 'b collapsing) \<Rightarrow> 'a list \<Rightarrow> ('b list) collapsing" where
  "map_state f [] st = Inr ([], st)"
| "map_state f (x # xs) st =
     (case f x st of
        Inl e \<Rightarrow> Inl e
      | Inr (y, st') \<Rightarrow>
          (case map_state f xs st' of
             Inl e \<Rightarrow> Inl e
           | Inr (ys, st'') \<Rightarrow> Inr (y # ys, st'')))"

lemma rec_with_cong [fundef_cong]:
  "e = e' \<Longrightarrow> st = st' \<Longrightarrow> (f e' st' = g e' st')
   \<Longrightarrow> rec_with fv nv f e st = rec_with fv nv g e' st'"
  by (simp add: rec_with_def)

lemma map_state_cong [fundef_cong]:
  "xs = ys \<Longrightarrow> st = st' \<Longrightarrow> (\<And>x s. x \<in> set ys \<Longrightarrow> f x s = g x s)
   \<Longrightarrow> map_state f xs st = map_state g ys st'"
  by (induction ys arbitrary: xs st st') (auto split: sum.splits)

text \<open>
  \<^verbatim>\<open>map_commut_assoc\<close> after its loop, from the constant children and the processed
  non-constant ones. With no constant child and a single non-constant one the source
  reads \<^verbatim>\<open>self.non_constants\<close>, an attribute the mapper does not have.
\<close>

definition finish_commut_assoc :: "(nat \<Rightarrow> expr) \<Rightarrow> (expr list \<Rightarrow> expr) \<Rightarrow> expr list \<Rightarrow> expr list
    \<Rightarrow> expr collapsing" where
  "finish_commut_assoc new_var_func combine_func constants non_constants st =
     (if constants = [] then
        (if non_constants = [] then Inl AssertionError
         else if length non_constants > 1 then Inr (combine_func non_constants, st)
         else Inl (AttributeError ''non_constants''))
      else
        (case (if length constants = 1 \<and> is_atomic (constants ! 0) then Inr (constants ! 0, st)
               else assign_new_var new_var_func
                      (if length constants = 1 then constants ! 0 else combine_func constants) st) of
           Inl e \<Rightarrow> Inl e
         | Inr (folded_constant, st') \<Rightarrow>
             if non_constants \<noteq> [] then Inr (combine_func ([folded_constant] @ non_constants), st')
             else Inr (folded_constant, st')))"

text \<open>
  The \<^verbatim>\<open>map_\<close> methods: \<^verbatim>\<open>map_sum\<close> and \<^verbatim>\<open>map_product\<close> are \<^verbatim>\<open>map_commut_assoc\<close>, whose
  loop leaves the constant children as they are and processes the others in order;
  every other node is rebuilt from its processed children, as pymbolic's
  \<^verbatim>\<open>IdentityMapper\<close> does.
\<close>

fun ExpressionCollapsingMapper :: "string list \<Rightarrow> (nat \<Rightarrow> expr) \<Rightarrow> expr \<Rightarrow> expr collapsing" where
  "ExpressionCollapsingMapper fv nv (Constant c) st = Inr (Constant c, st)"
| "ExpressionCollapsingMapper fv nv (Variable name) st = Inr (Variable name, st)"
| "ExpressionCollapsingMapper fv nv (Sum children) st =
     (case map_state (rec_with fv nv (ExpressionCollapsingMapper fv nv))
             (filter (\<lambda>child. \<not> is_constant fv child) children) st of
        Inl e \<Rightarrow> Inl e
      | Inr (non_constants, st') \<Rightarrow>
          finish_commut_assoc nv Sum (filter (is_constant fv) children) non_constants st')"
| "ExpressionCollapsingMapper fv nv (Product children) st =
     (case map_state (rec_with fv nv (ExpressionCollapsingMapper fv nv))
             (filter (\<lambda>child. \<not> is_constant fv child) children) st of
        Inl e \<Rightarrow> Inl e
      | Inr (non_constants, st') \<Rightarrow>
          finish_commut_assoc nv Product (filter (is_constant fv) children) non_constants st')"
| "ExpressionCollapsingMapper fv nv (Quotient numerator denominator) st =
     (case rec_with fv nv (ExpressionCollapsingMapper fv nv) numerator st of
        Inl e \<Rightarrow> Inl e
      | Inr (n, st1) \<Rightarrow>
          (case rec_with fv nv (ExpressionCollapsingMapper fv nv) denominator st1 of
             Inl e \<Rightarrow> Inl e
           | Inr (d, st2) \<Rightarrow> Inr (Quotient n d, st2)))"
| "ExpressionCollapsingMapper fv nv (Power base exponent) st =
     (case rec_with fv nv (ExpressionCollapsingMapper fv nv) base st of
        Inl e \<Rightarrow> Inl e
      | Inr (b, st1) \<Rightarrow>
          (case rec_with fv nv (ExpressionCollapsingMapper fv nv) exponent st1 of
             Inl e \<Rightarrow> Inl e
           | Inr (x, st2) \<Rightarrow> Inr (Power b x, st2)))"
| "ExpressionCollapsingMapper fv nv (Call function parameters) st =
     (case rec_with fv nv (ExpressionCollapsingMapper fv nv) function st of
        Inl e \<Rightarrow> Inl e
      | Inr (f, st1) \<Rightarrow>
          (case map_state (rec_with fv nv (ExpressionCollapsingMapper fv nv)) parameters st1 of
             Inl e \<Rightarrow> Inl e
           | Inr (ps, st2) \<Rightarrow> Inr (Call f ps, st2)))"
| "ExpressionCollapsingMapper fv nv (CallWithKwargs function parameters kw_parameters) st =
     (case rec_with fv nv (ExpressionCollapsingMapper fv nv) function st of
        Inl e \<Rightarrow> Inl e
      | Inr (f, st1) \<Rightarrow>
          (case map_state (rec_with fv nv (ExpressionCollapsingMapper fv nv)) parameters st1 of
             Inl e \<Rightarrow> Inl e
           | Inr (ps, st2) \<Rightarrow>
               (case map_state (\<lambda>kv s.
                        case rec_with fv nv (ExpressionCollapsingMapper fv nv) (snd kv) s of
                          Inl e \<Rightarrow> Inl e
                        | Inr (v, s') \<Rightarrow> Inr ((fst kv, v), s')) kw_parameters st2 of
                  Inl e \<Rightarrow> Inl e
                | Inr (kws, st3) \<Rightarrow> Inr (CallWithKwargs f ps kws, st3))))"
| "ExpressionCollapsingMapper fv nv (Subscript aggregate index) st =
     (case rec_with fv nv (ExpressionCollapsingMapper fv nv) aggregate st of
        Inl e \<Rightarrow> Inl e
      | Inr (a, st1) \<Rightarrow>
          (case rec_with fv nv (ExpressionCollapsingMapper fv nv) index st1 of
             Inl e \<Rightarrow> Inl e
           | Inr (i, st2) \<Rightarrow> Inr (Subscript a i, st2)))"
| "ExpressionCollapsingMapper fv nv (Comparison left operator right) st =
     (case rec_with fv nv (ExpressionCollapsingMapper fv nv) left st of
        Inl e \<Rightarrow> Inl e
      | Inr (l, st1) \<Rightarrow>
          (case rec_with fv nv (ExpressionCollapsingMapper fv nv) right st1 of
             Inl e \<Rightarrow> Inl e
           | Inr (r, st2) \<Rightarrow> Inr (Comparison l operator r, st2)))"
| "ExpressionCollapsingMapper fv nv (LogicalOr children) st =
     (case map_state (rec_with fv nv (ExpressionCollapsingMapper fv nv)) children st of
        Inl e \<Rightarrow> Inl e
      | Inr (cs, st') \<Rightarrow> Inr (LogicalOr cs, st'))"
| "ExpressionCollapsingMapper fv nv (LogicalAnd children) st =
     (case map_state (rec_with fv nv (ExpressionCollapsingMapper fv nv)) children st of
        Inl e \<Rightarrow> Inl e
      | Inr (cs, st') \<Rightarrow> Inr (LogicalAnd cs, st'))"
| "ExpressionCollapsingMapper fv nv (LogicalNot child) st =
     (case rec_with fv nv (ExpressionCollapsingMapper fv nv) child st of
        Inl e \<Rightarrow> Inl e
      | Inr (c, st') \<Rightarrow> Inr (LogicalNot c, st'))"
| "ExpressionCollapsingMapper fv nv (Max children) st =
     (case map_state (rec_with fv nv (ExpressionCollapsingMapper fv nv)) children st of
        Inl e \<Rightarrow> Inl e
      | Inr (cs, st') \<Rightarrow> Inr (Max cs, st'))"
| "ExpressionCollapsingMapper fv nv (Min children) st =
     (case map_state (rec_with fv nv (ExpressionCollapsingMapper fv nv)) children st of
        Inl e \<Rightarrow> Inl e
      | Inr (cs, st') \<Rightarrow> Inr (Min cs, st'))"
| "ExpressionCollapsingMapper fv nv (IfThenElse condition then_branch else_branch) st =
     (case rec_with fv nv (ExpressionCollapsingMapper fv nv) condition st of
        Inl e \<Rightarrow> Inl e
      | Inr (c, st1) \<Rightarrow>
          (case rec_with fv nv (ExpressionCollapsingMapper fv nv) then_branch st1 of
             Inl e \<Rightarrow> Inl e
           | Inr (t, st2) \<Rightarrow>
               (case rec_with fv nv (ExpressionCollapsingMapper fv nv) else_branch st2 of
                  Inl e \<Rightarrow> Inl e
                | Inr (f, st3) \<Rightarrow> Inr (IfThenElse c t f, st3))))"

text \<open>
  \<^verbatim>\<open>collapse_constants\<close> (lines 216-232): the constant finder runs first, the top-level
  expression is dispatched without the constant check of \<^verbatim>\<open>rec\<close>, and the result is
  the new expression with the calls made to \<^verbatim>\<open>assign_func\<close>.
\<close>

definition collapse_constants :: "expr \<Rightarrow> string list \<Rightarrow> (nat \<Rightarrow> expr) \<Rightarrow> error + (expr \<times> (expr \<times> expr) list)" where
  "collapse_constants expression free_variables new_var_func =
     (case ConstantFindingMapper free_variables expression of
        Inl e \<Rightarrow> Inl e
      | Inr c \<Rightarrow>
          (case ExpressionCollapsingMapper free_variables new_var_func expression
                  \<lparr>n_new_vars = 0, assignments = []\<rparr> of
             Inl e \<Rightarrow> Inl e
           | Inr (new_expression, st) \<Rightarrow> Inr (new_expression, assignments st)))"

text \<open>
  Executing the emitted assignments: each binds its variable, in the context, to the
  value of its expression.
\<close>

fun execute_assignments :: "'v py_ops \<Rightarrow> (string \<rightharpoonup> 'v) \<Rightarrow> (string \<rightharpoonup> 'v) \<Rightarrow> (expr \<times> expr) list
    \<Rightarrow> error + (string \<rightharpoonup> 'v)" where
  "execute_assignments ops context functions [] = Inr context"
| "execute_assignments ops context functions ((variable, e) # rest) =
     (case function_name variable of
        Inl err \<Rightarrow> Inl err
      | Inr name \<Rightarrow>
          (case evaluate ops context functions e of
             Inl err \<Rightarrow> Inl err
           | Inr v \<Rightarrow> execute_assignments ops (context(name \<mapsto> v)) functions rest))"

section \<open>The interpreter (leap/vm/exec_numpy.py)\<close>

text \<open>
  The values of the interpreter's state: \<^verbatim>\<open>None\<close>, a float, a complex number, a
  rank-1 numpy array, a function object. A float is a finite IEEE double, which is a
  real number; what the arithmetic on floats rounds to is made explicit wherever the
  code computes with them. \<^verbatim>\<open>run\<close> yields the observations of the step plan as
  StateComputed events, and StepCompleted or StepFailed with the current \<^verbatim>\<open><t>\<close>.
\<close>

datatype val = NoneVal | Num real | CNum complex | Arr "real list" | FuncVal string

type_synonym state = "string \<rightharpoonup> val"

datatype event =
    StateComputed val string string val
  | StepCompleted val
  | StepFailed val

text \<open>
  \<^verbatim>\<open>set_up\<close> (lines 86-96). The components are a dictionary, listed in the order of
  \<^verbatim>\<open>iteritems\<close>. The state is returned also when the call raises.
\<close>

fun set_up_loop :: "(string \<times> val) list \<Rightarrow> state \<Rightarrow> (error + unit) \<times> state" where
  "set_up_loop [] st = (Inr (), st)"
| "set_up_loop ((key, v) # rest) st =
     (if prefix ''<'' key
      then (Inl (ValueError ''state variables may not start with <''), st)
      else set_up_loop rest (st(''<state>'' @ key \<mapsto> v)))"

definition set_up :: "val \<Rightarrow> val \<Rightarrow> (string \<times> val) list \<Rightarrow> state \<Rightarrow> (error + unit) \<times> state" where
  "set_up t_start dt_start components st =
     set_up_loop components (st(''<t>'' \<mapsto> t_start, ''<dt>'' \<mapsto> dt_start))"

text \<open>
  The reserved name-prefix convention of the interface (\<^verbatim>\<open><t>\<close>, \<^verbatim>\<open><dt>\<close>,
  \<^verbatim>\<open><p>X\<close>, \<^verbatim>\<open><state>X\<close>, \<^verbatim>\<open><func>X\<close>), to compare with the guard of
  \<^verbatim>\<open>set_up\<close>, which looks at the first character only.
\<close>

definition reserved_prefixes :: "string list" where
  "reserved_prefixes = [''<t>'', ''<dt>'', ''<p>'', ''<state>'', ''<func>'']"

definition bears_reserved_prefix :: "string \<Rightarrow> bool" where
  "bears_reserved_prefix name \<longleftrightarrow> (\<exists>p \<in> set reserved_prefixes. prefix p name)"

text \<open>The \<^verbatim>\<open>finally\<close> block of \<^verbatim>\<open>run\<close> (lines 126-133).\<close>

definition discard_per_step_state :: "state \<Rightarrow> state" where
  "discard_per_step_state st =
     (\<lambda>name.
        if \<not> prefix ''<state>'' name \<and> \<not> prefix ''<p>'' name \<and> name \<notin> set [''<t>'', ''<dt>'']
        then None
        else st name)"

text \<open>
  \<^verbatim>\<open>run\<close> (lines 104-142). Executing the step plan through the execution controller
  is a parameter: from the state, the observations yielded (\<^verbatim>\<open>exec_ReturnState\<close>), the
  exception raised if any, and the state left. \<open>adjust_time_step\<close> is the head of the
  loop; a \<^verbatim>\<open><t>\<close> or \<^verbatim>\<open><dt>\<close> that is not a float is reported as TypeError.
  The sum \<^verbatim>\<open>t+dt\<close> and the difference \<^verbatim>\<open>t_end - t\<close> are operations on floats: each
  is the exact result rounded to a float. The rounding \<open>rnd\<close> is a parameter, so that
  what is proved of \<^verbatim>\<open>run\<close> holds however floats round (\<open>round64\<close> below is the
  rounding of IEEE doubles); the comparisons \<^verbatim>\<open>>=\<close> and \<^verbatim>\<open><=\<close> of floats are exact.
  \<open>run_iteration\<close> is one pass through the loop body: the events it yields, how the
  loop goes on, and the state with the flag \<^verbatim>\<open>last_step\<close>. The generator is observed
  through \<open>run_loop n\<close>, the events of the first \<open>n\<close> iterations, \<open>Suspended\<close> when
  the loop has not ended by then.
\<close>

type_synonym observation = "val \<times> string \<times> string \<times> val"

type_synonym step_plan = "state \<Rightarrow> observation list \<times> error option \<times> state"

definition yield_all :: "observation list \<Rightarrow> event list" where
  "yield_all observations =
     map (\<lambda>(t, time_id, component_id, state_component).
            StateComputed t time_id component_id state_component) observations"

definition adjust_time_step :: "(real \<Rightarrow> real) \<Rightarrow> real \<Rightarrow> state \<times> bool \<Rightarrow> error + (state \<times> bool)" where
  "adjust_time_step rnd t_end sl =
     (case sl of (st, last_step) \<Rightarrow>
        (case st ''<t>'' of
           None \<Rightarrow> Inl (KeyError ''<t>'')
         | Some tv \<Rightarrow>
             (case st ''<dt>'' of
                None \<Rightarrow> Inl (KeyError ''<dt>'')
              | Some dtv \<Rightarrow>
                  (case (tv, dtv) of
                     (Num t, Num dt) \<Rightarrow>
                       if rnd (t + dt) \<ge> t_end then
                         (if t \<le> t_end then Inr (st(''<dt>'' \<mapsto> Num (rnd (t_end - t))), True)
                          else Inl AssertionError)
                       else Inr (st, last_step)
                   | _ \<Rightarrow> Inl TypeError))))"

datatype loop_control = Continue | Break | Raise error

definition run_iteration :: "(real \<Rightarrow> real) \<Rightarrow> step_plan \<Rightarrow> real \<Rightarrow> state \<times> bool
    \<Rightarrow> event list \<times> loop_control \<times> (state \<times> bool)" where
  "run_iteration rnd plan t_end sl =
     (case adjust_time_step rnd t_end sl of
        Inl e \<Rightarrow> ([], Raise e, sl)
      | Inr (st, last_step) \<Rightarrow>
          (case plan st of (observations, raised, st') \<Rightarrow>
             (let events = yield_all observations;
                  st'' = discard_per_step_state st' in
              case raised of
                Some e \<Rightarrow>
                  if e = FailStepException then
                    (case st'' ''<t>'' of
                       None \<Rightarrow> (events, Raise (KeyError ''<t>''), (st'', last_step))
                     | Some t \<Rightarrow> (events @ [StepFailed t], Continue, (st'', last_step)))
                  else (events, Raise e, (st'', last_step))
              | None \<Rightarrow>
                  (case st'' ''<t>'' of
                     None \<Rightarrow> (events, Raise (KeyError ''<t>''), (st'', last_step))
                   | Some t \<Rightarrow>
                       (events @ [StepCompleted t],
                        if last_step then Break else Continue,
                        (st'', last_step))))))"

datatype run_status = Suspended | Returned | Raised error

fun run_loop :: "(real \<Rightarrow> real) \<Rightarrow> nat \<Rightarrow> step_plan \<Rightarrow> real \<Rightarrow> state \<times> bool
    \<Rightarrow> event list \<times> run_status \<times> (state \<times> bool)" where
  "run_loop rnd 0 plan t_end sl = ([], Suspended, sl)"
| "run_loop rnd (Suc n) plan t_end sl =
     (case run_iteration rnd plan t_end sl of
        (events, Continue, sl') \<Rightarrow>
          (case run_loop rnd n plan t_end sl' of
             (events', outcome) \<Rightarrow> (events @ events', outcome))
      | (events, Break, sl') \<Rightarrow> (events, Returned, sl')
      | (events, Raise e, sl') \<Rightarrow> (events, Raised e, sl'))"

definition run :: "(real \<Rightarrow> real) \<Rightarrow> nat \<Rightarrow> step_plan \<Rightarrow> real \<Rightarrow> state
    \<Rightarrow> event list \<times> run_status \<times> (state \<times> bool)" where
  "run rnd n plan t_end st = run_loop rnd n plan t_end (st, False)"

text \<open>
  The handlers \<^verbatim>\<open>exec_AssignExpression\<close> and \<^verbatim>\<open>exec_FailStep\<close> (lines 162-163 and
  178-179), as plans of one instruction.
\<close>

definition exec_AssignExpression :: "(state \<Rightarrow> expr \<Rightarrow> error + val) \<Rightarrow> string \<Rightarrow> expr \<Rightarrow> step_plan" where
  "exec_AssignExpression eval_mapper assignee expression st =
     (case eval_mapper st expression of
        Inl e \<Rightarrow> ([], Some e, st)
      | Inr v \<Rightarrow> ([], None, st(assignee \<mapsto> v)))"

definition exec_FailStep :: step_plan where
  "exec_FailStep st = ([], Some FailStepException, st)"

definition then_exec :: "step_plan \<Rightarrow> step_plan \<Rightarrow> step_plan" where
  "then_exec first second st =
     (case first st of
        (events, Some e, st') \<Rightarrow> (events, Some e, st')
      | (events, None, st') \<Rightarrow>
          (case second st' of (events', outcome) \<Rightarrow> (events @ events', outcome)))"

subsection \<open>Python floats as an instance of the operations\<close>

text \<open>
  Python's float is the IEEE 754 double: 53 significant bits, exponents from -1022 to
  1023, subnormal numbers below. The operators \<^verbatim>\<open>+\<close>, \<^verbatim>\<open>-\<close>, \<^verbatim>\<open>*\<close> and \<^verbatim>\<open>/\<close>
  return the exact result rounded to the nearest float, a tie going to the float with
  the even significand. \<open>round64\<close> is that rounding: \<open>find_exponent\<close> searches, from
  0, the exponent \<open>e\<close> with \<open>2 powi e \<le> \<bar>x\<bar> < 2 powi (e + 1)\<close> (the bound on the
  search is beyond the exponents of all doubles), the spacing of the floats around
  \<open>x\<close> is \<open>2 powi (e - 52)\<close>, with \<open>e\<close> at least -1022, and \<open>x\<close> is rounded to the
  nearest multiple of the spacing. A result beyond the largest double, which Python
  gives as an infinity, is outside this type of values.
\<close>

definition round_half_even :: "real \<Rightarrow> int" where
  "round_half_even y =
     (let f = \<lfloor>y\<rfloor> in
      if y - of_int f < 1/2 then f
      else if y - of_int f > 1/2 then f + 1
      else if even f then f else f + 1)"

fun find_exponent :: "nat \<Rightarrow> real \<Rightarrow> int \<Rightarrow> int" where
  "find_exponent 0 x e = e"
| "find_exponent (Suc n) x e =
     (if x < 2 powi e then find_exponent n x (e - 1)
      else if 2 powi (e + 1) \<le> x then find_exponent n x (e + 1)
      else e)"

definition round64 :: "real \<Rightarrow> real" where
  "round64 x =
     (if x = 0 then 0
      else (let e = max (find_exponent 2048 \<bar>x\<bar> 0) (- 1022);
                spacing = 2 powi (e - 52)
            in of_int (round_half_even (x / spacing)) * spacing))"

text \<open>
  The evaluator is parametric in Python's operators. This instance gives them on
  floats (\<open>Num\<close>; a real literal is taken to be a float), the arithmetic rounded by
  \<open>round64\<close> (\<^verbatim>\<open>**\<close> is taken to be correctly rounded as well), with booleans as
  the numbers 0 and 1 and indexing of a
  rank-1 array; an arithmetic operator applied to anything but two floats is reported
  as \<open>TypeError\<close>, as Python does for \<^verbatim>\<open>None\<close> and for function objects. Arithmetic on
  arrays and on complex numbers is outside this instance; it is used only to run the
  definitions on concrete floats. The meaning of the function objects is the parameter
  \<open>apply\<close>.
\<close>

definition float_binop :: "(real \<Rightarrow> real \<Rightarrow> error + val) \<Rightarrow> val \<Rightarrow> val \<Rightarrow> error + val" where
  "float_binop f a b = (case (a, b) of (Num x, Num y) \<Rightarrow> f x y | _ \<Rightarrow> Inl TypeError)"

definition float_pow :: "real \<Rightarrow> real \<Rightarrow> error + val" where
  "float_pow x y =
     (if y \<in> \<int> then
        (if y \<ge> 0 then Inr (Num (round64 (x ^ nat \<lfloor>y\<rfloor>)))
         else if x = 0 then Inl ZeroDivisionError
         else Inr (Num (round64 (1 / x ^ nat \<lfloor>- y\<rfloor>))))
      else if x > 0 then Inr (Num (round64 (x powr y)))
      else if x = 0 then (if y > 0 then Inr (Num 0) else Inl ZeroDivisionError)
      else Inl (ValueError ''negative number cannot be raised to a fractional power''))"

definition float_compare :: "string \<Rightarrow> real \<Rightarrow> real \<Rightarrow> error + val" where
  "float_compare operator x y =
     (if operator = ''=='' then Inr (Num (of_bool (x = y)))
      else if operator = ''!='' then Inr (Num (of_bool (x \<noteq> y)))
      else if operator = ''<'' then Inr (Num (of_bool (x < y)))
      else if operator = ''<='' then Inr (Num (of_bool (x \<le> y)))
      else if operator = ''>'' then Inr (Num (of_bool (x > y)))
      else if operator = ''>='' then Inr (Num (of_bool (x \<ge> y)))
      else Inl (AttributeError operator))"

definition float_getitem :: "val \<Rightarrow> val \<Rightarrow> error + val" where
  "float_getitem a i =
     (case (a, i) of
        (Arr xs, Num j) \<Rightarrow>
          if j \<in> \<int> then
            (let n = int (length xs); k = (if j < 0 then n + \<lfloor>j\<rfloor> else \<lfloor>j\<rfloor>)
             in if 0 \<le> k \<and> k < n then Inr (Num (xs ! nat k)) else Inl IndexError)
          else Inl IndexError
      | _ \<Rightarrow> Inl TypeError)"

definition float_truth :: "val \<Rightarrow> error + bool" where
  "float_truth v =
     (case v of
        NoneVal \<Rightarrow> Inr False
      | Num x \<Rightarrow> Inr (x \<noteq> 0)
      | CNum z \<Rightarrow> Inr (z \<noteq> 0)
      | Arr xs \<Rightarrow>
          (case xs of
             [] \<Rightarrow> Inr False
           | [x] \<Rightarrow> Inr (x \<noteq> 0)
           | _ \<Rightarrow> Inl (ValueError ''the truth value of an array is ambiguous''))
      | FuncVal name \<Rightarrow> Inr True)"

definition float_ops :: "(string \<Rightarrow> val list \<Rightarrow> (string \<times> val) list \<Rightarrow> error + val) \<Rightarrow> val py_ops" where
  "float_ops apply =
     \<lparr> py_const = (\<lambda>c. case c of PyReal x \<Rightarrow> Num x | PyComplex z \<Rightarrow> CNum z),
       py_none = NoneVal,
       py_int = (\<lambda>i. Num (of_int i)),
       py_bool = (\<lambda>b. Num (of_bool b)),
       py_add = float_binop (\<lambda>x y. Inr (Num (round64 (x + y)))),
       py_mul = float_binop (\<lambda>x y. Inr (Num (round64 (x * y)))),
       py_truediv = float_binop (\<lambda>x y. if y = 0 then Inl ZeroDivisionError
                                        else Inr (Num (round64 (x / y)))),
       py_pow = float_binop float_pow,
       py_getitem = float_getitem,
       py_compare = (\<lambda>operator. float_binop (float_compare operator)),
       py_truth = float_truth,
       py_max = float_binop (\<lambda>x y. Inr (Num (max x y))),
       py_min = float_binop (\<lambda>x y. Inr (Num (min x y))),
       py_call = (\<lambda>f args kwargs. case f of FuncVal name \<Rightarrow> apply name args kwargs | _ \<Rightarrow> Inl TypeError) \<rparr>"

subsection \<open>Step plans used as concrete inputs\<close>

text \<open>
  A step plan is what \<^verbatim>\<open>run\<close> executes through the execution controller; the
  controller (leap/vm/language.py) is outside the code modelled here, so a plan is any function
  from the state to the observations yielded, the exception raised (if any) and the
  state left behind. The plans below are built from the instruction handlers of the
  interpreter: \<^verbatim>\<open>exec_If\<close> continues with the instructions of the selected branch,
  \<open>then_exec\<close> is a dependency chain of two instructions, and \<open>eval_mapper\<close> is
  \<^verbatim>\<open>self.eval_mapper\<close>, pymbolic's evaluator with the state as its context (lines
  83-84), here on floats; no function object is called by the plans below.
\<close>

definition exec_If :: "(state \<Rightarrow> expr \<Rightarrow> error + val) \<Rightarrow> expr \<Rightarrow> step_plan \<Rightarrow> step_plan \<Rightarrow> step_plan" where
  "exec_If eval_mapper condition then_depends_on else_depends_on st =
     (case eval_mapper st condition of
        Inl e \<Rightarrow> ([], Some e, st)
      | Inr v \<Rightarrow>
          (case float_truth v of
             Inl e \<Rightarrow> ([], Some e, st)
           | Inr b \<Rightarrow> if b then then_depends_on st else else_depends_on st))"

text \<open>
  \<open>advance_time\<close> is the one-instruction plan \<^verbatim>\<open><t> := <t> + <dt>\<close>;
  \<open>advance_then_fail\<close> makes the same assignment and then signals fail-step;
  \<open>reject_or_accept\<close> is the skeleton of an adaptive method: when \<^verbatim>\<open><dt>\<close> exceeds
  1/2 it halves \<^verbatim>\<open><dt>\<close> and signals fail-step, otherwise it advances the time.
  \<open>example_state\<close> is the state after
  \<^verbatim>\<open>set_up(t_start=0, dt_start=1, {"y": [2, 0]})\<close>.
\<close>

definition eval_mapper :: "state \<Rightarrow> expr \<Rightarrow> error + val" where
  "eval_mapper st e = EvaluationMapperBase (float_ops (\<lambda>name args kwargs. Inl TypeError)) st e"

definition advance_time :: step_plan where
  "advance_time =
     exec_AssignExpression eval_mapper ''<t>'' (Sum [Variable ''<t>'', Variable ''<dt>''])"

definition advance_then_fail :: step_plan where
  "advance_then_fail = then_exec advance_time exec_FailStep"

definition reject_or_accept :: step_plan where
  "reject_or_accept =
     exec_If eval_mapper (Comparison (Variable ''<dt>'') ''>'' (Constant (PyReal (1/2))))
       (then_exec
          (exec_AssignExpression eval_mapper ''<dt>''
             (Quotient (Variable ''<dt>'') (Constant (PyReal 2))))
          exec_FailStep)
       advance_time"

definition example_state :: state where
  "example_state = [''<t>'' \<mapsto> Num 0, ''<dt>'' \<mapsto> Num 1, ''<state>y'' \<mapsto> Arr [2, 0]]"

text \<open>
  What the end of \<^verbatim>\<open>run\<close> needs from a plan at the time \<open>t\<close> with the step \<open>dt\<close>:
  the execution completes (no fail-step, no fault), sets \<^verbatim>\<open><t>\<close> to the float sum
  \<^verbatim>\<open><t> + <dt>\<close> and leaves \<^verbatim>\<open><dt>\<close> as it found it. \<open>time_after rnd t dt k\<close> is
  the time that \<open>k\<close> such executions with the step \<open>dt\<close> reach from \<open>t\<close>.
\<close>

definition completes_advancing :: "(real \<Rightarrow> real) \<Rightarrow> step_plan \<Rightarrow> real \<Rightarrow> real \<Rightarrow> bool" where
  "completes_advancing rnd plan t dt \<longleftrightarrow>
     (\<forall>s. s ''<t>'' = Some (Num t) \<and> s ''<dt>'' = Some (Num dt) \<longrightarrow>
        (\<exists>observations s'. plan s = (observations, None, s')
           \<and> s' ''<t>'' = Some (Num (rnd (t + dt))) \<and> s' ''<dt>'' = Some (Num dt)))"

fun time_after :: "(real \<Rightarrow> real) \<Rightarrow> real \<Rightarrow> real \<Rightarrow> nat \<Rightarrow> real" where
  "time_after rnd t dt 0 = t"
| "time_after rnd t dt (Suc k) = rnd (time_after rnd t dt k + dt)"

lemmas plan_defs = yield_all_def then_exec_def exec_AssignExpression_def exec_FailStep_def exec_If_def
  eval_mapper_def float_ops_def float_binop_def float_compare_def float_truth_def
  advance_time_def


section \<open>Kind unification\<close>

text \<open>
  Claim C4. \<open>unify\<close> is commutative on every pair drawn from the Scalar and Array kinds,
  whatever their real-valuedness flags; two ODEComponent kinds with distinct component
  ids do not unify (ValueError); and unifying Boolean with any kind, on either side,
  raises ValueError.
\<close>

theorem unify_commutative_and_failures:
  "unify (Some (Scalar r1)) (Some (Scalar r2)) = unify (Some (Scalar r2)) (Some (Scalar r1))
   \<and> unify (Some (Scalar r1)) (Some (Array r2)) = unify (Some (Array r2)) (Some (Scalar r1))
   \<and> unify (Some (Array r1)) (Some (Array r2)) = unify (Some (Array r2)) (Some (Array r1))
   \<and> (c1 \<noteq> c2 \<longrightarrow>
        unify (Some (ODEComponent c1)) (Some (ODEComponent c2))
          = Inl (ValueError ''encountered arithmetic with mismatched ODE components''))
   \<and> unify (Some Boolean) (Some k) = Inl (ValueError ''arithmetic with flags is not permitted'')
   \<and> unify (Some k) (Some Boolean) = Inl (ValueError ''arithmetic with flags is not permitted'')"
  by (auto simp add: unify_def)

theorem unify_commutative_and_failures_witness:
  "unify (Some (Scalar True)) (Some (Array False)) = Inr (Some (Array False))
   \<and> unify (Some (Array False)) (Some (Scalar True)) = Inr (Some (Array False))
   \<and> unify (Some (ODEComponent ''y'')) (Some (ODEComponent ''z''))
       = Inl (ValueError ''encountered arithmetic with mismatched ODE components'')
   \<and> unify (Some Boolean) (Some (ODEComponent ''y''))
       = Inl (ValueError ''arithmetic with flags is not permitted'')
   \<and> unify (Some (Array True)) (Some Boolean)
       = Inl (ValueError ''arithmetic with flags is not permitted'')"
  using unify_commutative_and_failures [of True False "''y''" "''z''" "ODEComponent ''y''"]
    unify_commutative_and_failures [of True False "''y''" "''z''" "Array True"]
  by (simp add: unify_def)

section \<open>The kind table records each name once\<close>

lemma set_kind_same:
  "recorded_kind isv self f n = Some k \<Longrightarrow> set_kind isv self f n k = (Inr (), self)"
  by (cases "isv n"; cases "per_function_table self f")
     (simp_all add: set_kind_def recorded_kind_def setdefault_table_def)

lemma set_kind_conflict:
  "recorded_kind isv self f n = Some k \<Longrightarrow> k' \<noteq> k \<Longrightarrow>
   set_kind isv self f n k' = (Inl (RuntimeError ''inconsistent kind derived''), self)"
  by (cases "isv n"; cases "per_function_table self f")
     (simp_all add: set_kind_def recorded_kind_def setdefault_table_def)

lemma set_kind_keeps_recorded:
  assumes r: "recorded_kind isv self f n = Some k"
  shows "recorded_kind isv (snd (set_kind isv self f' n' k'')) f n = Some k"
proof (cases "isv n'")
  case True
  with r show ?thesis
    by (cases "global_table self n'") (auto simp add: set_kind_def recorded_kind_def)
next
  case False
  show ?thesis
  proof (cases "per_function_table self f'")
    case None
    with False r show ?thesis
      by (cases "isv n") (auto simp add: set_kind_def recorded_kind_def setdefault_table_def)
  next
    case (Some tbl)
    with False r show ?thesis
      by (cases "isv n"; cases "tbl n'")
         (auto simp add: set_kind_def recorded_kind_def setdefault_table_def)
  qed
qed

lemma set_kind_records:
  "recorded_kind isv self f n = None \<Longrightarrow>
   fst (set_kind isv self f n k) = Inr ()
   \<and> recorded_kind isv (snd (set_kind isv self f n k)) f n = Some k"
  by (cases "isv n"; cases "per_function_table self f")
     (simp_all add: set_kind_def recorded_kind_def setdefault_table_def)

text \<open>
  Claim C6. Once a kind is recorded for a name (in the global dictionary for a state
  variable, in the owning function's dictionary otherwise), a later \<^verbatim>\<open>set\<close> of that
  name with an equal kind leaves the whole table unchanged, a later \<^verbatim>\<open>set\<close> with a
  different kind raises RuntimeError and leaves the table unchanged, and no
  \<^verbatim>\<open>set\<close> of any name, succeeding or raising, changes the recorded entry.
\<close>

theorem set_kind_recorded_immutable:
  "recorded_kind isv self f n = Some k \<Longrightarrow>
     set_kind isv self f n k = (Inr (), self)
   \<and> (k' \<noteq> k \<longrightarrow>
        set_kind isv self f n k' = (Inl (RuntimeError ''inconsistent kind derived''), self))
   \<and> recorded_kind isv (snd (set_kind isv self f' n' k'')) f n = Some k"
  by (simp add: set_kind_same set_kind_conflict set_kind_keeps_recorded)

theorem set_kind_recorded_immutable_witness:
  "recorded_kind (prefix ''<'') (snd (set_kind (prefix ''<'') SymbolKindTable_init ''f'' ''x'' (Some (Scalar True)))) ''f'' ''x''
     = Some (Some (Scalar True))
   \<and> set_kind (prefix ''<'') (snd (set_kind (prefix ''<'') SymbolKindTable_init ''f'' ''x'' (Some (Scalar True))))
         ''f'' ''x'' (Some (Scalar True))
       = (Inr (), snd (set_kind (prefix ''<'') SymbolKindTable_init ''f'' ''x'' (Some (Scalar True))))
   \<and> set_kind (prefix ''<'') (snd (set_kind (prefix ''<'') SymbolKindTable_init ''f'' ''x'' (Some (Scalar True))))
         ''f'' ''x'' (Some Boolean)
       = (Inl (RuntimeError ''inconsistent kind derived''),
          snd (set_kind (prefix ''<'') SymbolKindTable_init ''f'' ''x'' (Some (Scalar True))))
   \<and> set_kind (prefix ''<'') SymbolKindTable_init ''f'' ''<dt>'' (Some (Array True))
       = (Inl (RuntimeError ''inconsistent kind derived''), SymbolKindTable_init)"
proof -
  let ?isv = "prefix ''<'' :: string \<Rightarrow> bool"
  let ?self = "snd (set_kind ?isv SymbolKindTable_init ''f'' ''x'' (Some (Scalar True)))"
  have r: "recorded_kind ?isv ?self ''f'' ''x'' = Some (Some (Scalar True))"
    using set_kind_records [of ?isv SymbolKindTable_init "''f''" "''x''" "Some (Scalar True)"]
    by (simp add: recorded_kind_def SymbolKindTable_init_def)
  have g: "recorded_kind ?isv SymbolKindTable_init ''f'' ''<dt>'' = Some (Some (Scalar True))"
    by (simp add: recorded_kind_def SymbolKindTable_init_def)
  show ?thesis
    using r set_kind_recorded_immutable [OF r, of "Some Boolean"]
      set_kind_recorded_immutable [OF g, of "Some (Array True)"]
    by simp
qed

section \<open>Variable resolution in the evaluator\<close>

text \<open>
  Claim C8. Evaluating a variable: a name bound in the value context evaluates to that
  value, whether or not the function table binds it too; a name bound only in the
  function table evaluates to the function itself, as a value; a name bound in neither
  evaluates, without raising, to \<^verbatim>\<open>None\<close>.
\<close>

theorem map_variable_resolution:
  "(context name = Some v \<longrightarrow> evaluate ops context functions (Variable name) = Inr v)
   \<and> (context name = None \<and> functions name = Some f \<longrightarrow>
        evaluate ops context functions (Variable name) = Inr f)
   \<and> (context name = None \<and> functions name = None \<longrightarrow>
        evaluate ops context functions (Variable name) = Inr (py_none ops))"
  by simp

theorem map_variable_resolution_witness:
  "evaluate (float_ops (\<lambda>name args kwargs. Inl TypeError)) [''x'' \<mapsto> Num 1] [''x'' \<mapsto> FuncVal ''f'', ''g'' \<mapsto> FuncVal ''g'']
      (Variable ''x'') = Inr (Num 1)
   \<and> evaluate (float_ops (\<lambda>name args kwargs. Inl TypeError)) [''x'' \<mapsto> Num 1] [''x'' \<mapsto> FuncVal ''f'', ''g'' \<mapsto> FuncVal ''g'']
      (Variable ''g'') = Inr (FuncVal ''g'')
   \<and> evaluate (float_ops (\<lambda>name args kwargs. Inl TypeError)) [''x'' \<mapsto> Num 1] [''x'' \<mapsto> FuncVal ''f'', ''g'' \<mapsto> FuncVal ''g'']
      (Variable ''z'') = Inr NoneVal"
  using map_variable_resolution
      [of "[''x'' \<mapsto> Num 1]" "''x''" "Num 1" "float_ops (\<lambda>name args kwargs. Inl TypeError)"
          "[''x'' \<mapsto> FuncVal ''f'', ''g'' \<mapsto> FuncVal ''g'']" "FuncVal ''f''"]
    map_variable_resolution
      [of "[''x'' \<mapsto> Num 1]" "''g''" "Num 1" "float_ops (\<lambda>name args kwargs. Inl TypeError)"
          "[''x'' \<mapsto> FuncVal ''f'', ''g'' \<mapsto> FuncVal ''g'']" "FuncVal ''g''"]
    map_variable_resolution
      [of "[''x'' \<mapsto> Num 1]" "''z''" "Num 1" "float_ops (\<lambda>name args kwargs. Inl TypeError)"
          "[''x'' \<mapsto> FuncVal ''f'', ''g'' \<mapsto> FuncVal ''g'']" "FuncVal ''g''"]
  by (simp add: float_ops_def)

section \<open>Setting up the interpreter state\<close>

lemma reserved_prefix_starts_with_lt: "bears_reserved_prefix name \<Longrightarrow> prefix ''<'' name"
  by (auto simp add: bears_reserved_prefix_def reserved_prefixes_def prefix_def)

lemma set_up_loop_succeeds:
  "\<forall>key \<in> fst ` set components. \<not> prefix ''<'' key \<Longrightarrow> fst (set_up_loop components st) = Inr ()"
  by (induction components st rule: set_up_loop.induct) auto

lemma set_up_loop_raises:
  "\<exists>key \<in> fst ` set components. prefix ''<'' key \<Longrightarrow>
   fst (set_up_loop components st) = Inl (ValueError ''state variables may not start with <'')"
  by (induction components st rule: set_up_loop.induct) auto

lemma set_up_loop_other:
  "name \<notin> (\<lambda>key. ''<state>'' @ key) ` fst ` set components \<Longrightarrow>
   snd (set_up_loop components st) name = st name"
  by (induction components st rule: set_up_loop.induct) auto

lemma set_up_loop_stores:
  "distinct (map fst components) \<Longrightarrow> \<forall>key \<in> fst ` set components. \<not> prefix ''<'' key \<Longrightarrow>
   (key, v) \<in> set components \<Longrightarrow> snd (set_up_loop components st) (''<state>'' @ key) = Some v"
proof (induction components arbitrary: st)
  case Nil
  then show ?case by simp
next
  case (Cons c rest)
  obtain k0 v0 where c: "c = (k0, v0)" by (cases c)
  from Cons.prems c have ok: "\<not> prefix ''<'' k0" by simp
  let ?st = "st(''<state>'' @ k0 \<mapsto> v0)"
  have step: "set_up_loop (c # rest) st = set_up_loop rest ?st"
    using ok c by simp
  show ?case
  proof (cases "(key, v) = (k0, v0)")
    case True
    with Cons.prems c have "key \<notin> fst ` set rest" by auto
    then have "''<state>'' @ key \<notin> (\<lambda>key. ''<state>'' @ key) ` fst ` set rest" by auto
    from set_up_loop_other [OF this, of ?st] True show ?thesis
      unfolding step by simp
  next
    case False
    with Cons.prems c have mem: "(key, v) \<in> set rest" by auto
    from Cons.prems have d: "distinct (map fst rest)"
      and o: "\<forall>key \<in> fst ` set rest. \<not> prefix ''<'' key" by auto
    from Cons.IH [OF d o mem, of ?st] show ?thesis
      unfolding step .
  qed
qed

text \<open>
  Claim C9, as amended. \<^verbatim>\<open>set_up\<close> rejects a component name by its first character:
  for a components dictionary none of whose keys starts with \<^verbatim>\<open><\<close> it succeeds, sets
  \<^verbatim>\<open><t>\<close> and \<^verbatim>\<open><dt>\<close>, stores every component under \<^verbatim>\<open><state>\<close> prepended to its
  key and changes no other entry; when some key starts with \<^verbatim>\<open><\<close>, and so in particular
  when some key bears a reserved prefix, it raises ValueError.
\<close>

theorem set_up_seeds_state:
  assumes "distinct (map fst components)"
  shows "((\<forall>key \<in> fst ` set components. \<not> prefix ''<'' key) \<longrightarrow>
            fst (set_up t_start dt_start components st) = Inr ()
            \<and> snd (set_up t_start dt_start components st) ''<t>'' = Some t_start
            \<and> snd (set_up t_start dt_start components st) ''<dt>'' = Some dt_start
            \<and> (\<forall>(key, v) \<in> set components.
                  snd (set_up t_start dt_start components st) (''<state>'' @ key) = Some v)
            \<and> (\<forall>name. name \<noteq> ''<t>'' \<and> name \<noteq> ''<dt>''
                    \<and> name \<notin> (\<lambda>key. ''<state>'' @ key) ` fst ` set components
                  \<longrightarrow> snd (set_up t_start dt_start components st) name = st name))
       \<and> ((\<exists>key \<in> fst ` set components. prefix ''<'' key) \<longrightarrow>
            fst (set_up t_start dt_start components st)
              = Inl (ValueError ''state variables may not start with <''))
       \<and> ((\<exists>key \<in> fst ` set components. bears_reserved_prefix key) \<longrightarrow>
            fst (set_up t_start dt_start components st)
              = Inl (ValueError ''state variables may not start with <''))"
proof (intro conjI impI)
  assume ok: "\<forall>key \<in> fst ` set components. \<not> prefix ''<'' key"
  show "fst (set_up t_start dt_start components st) = Inr ()"
    using ok by (simp add: set_up_def set_up_loop_succeeds)
  have t: "''<t>'' \<notin> (\<lambda>key. ''<state>'' @ key) ` fst ` set components"
    and dt: "''<dt>'' \<notin> (\<lambda>key. ''<state>'' @ key) ` fst ` set components"
    by auto
  show "snd (set_up t_start dt_start components st) ''<t>'' = Some t_start"
    by (simp add: set_up_def set_up_loop_other [OF t])
  show "snd (set_up t_start dt_start components st) ''<dt>'' = Some dt_start"
    by (simp add: set_up_def set_up_loop_other [OF dt])
  show "\<forall>(key, v) \<in> set components.
          snd (set_up t_start dt_start components st) (''<state>'' @ key) = Some v"
    using set_up_loop_stores [OF assms ok] by (auto simp add: set_up_def)
  show "\<forall>name. name \<noteq> ''<t>'' \<and> name \<noteq> ''<dt>''
            \<and> name \<notin> (\<lambda>key. ''<state>'' @ key) ` fst ` set components
          \<longrightarrow> snd (set_up t_start dt_start components st) name = st name"
    by (simp add: set_up_def set_up_loop_other)
next
  assume "\<exists>key \<in> fst ` set components. prefix ''<'' key"
  then show "fst (set_up t_start dt_start components st)
      = Inl (ValueError ''state variables may not start with <'')"
    by (simp only: set_up_def set_up_loop_raises)
next
  assume "\<exists>key \<in> fst ` set components. bears_reserved_prefix key"
  then have "\<exists>key \<in> fst ` set components. prefix ''<'' key"
    using reserved_prefix_starts_with_lt by blast
  then show "fst (set_up t_start dt_start components st)
      = Inl (ValueError ''state variables may not start with <'')"
    by (simp only: set_up_def set_up_loop_raises)
qed

text \<open>
  The claim as stated fails for a key that starts with \<^verbatim>\<open><\<close> without bearing a
  reserved prefix: the components \<^verbatim>\<open>{"<x": 5}\<close> are free of reserved-prefix names, and
  \<^verbatim>\<open>set_up\<close> raises.
\<close>

theorem set_up_rejects_unreserved_name:
  "\<not> bears_reserved_prefix ''<x''
   \<and> fst (set_up (Num 0) (Num 1) [(''<x'', Num 5)] Map.empty)
       = Inl (ValueError ''state variables may not start with <'')"
  by (simp add: bears_reserved_prefix_def reserved_prefixes_def set_up_def)

theorem set_up_seeds_state_witness:
  "fst (set_up (Num 0) (Num 1) [(''y'', Arr [2, 0])] Map.empty) = Inr ()
   \<and> snd (set_up (Num 0) (Num 1) [(''y'', Arr [2, 0])] Map.empty) ''<t>'' = Some (Num 0)
   \<and> snd (set_up (Num 0) (Num 1) [(''y'', Arr [2, 0])] Map.empty) ''<dt>'' = Some (Num 1)
   \<and> snd (set_up (Num 0) (Num 1) [(''y'', Arr [2, 0])] Map.empty) ''<state>y'' = Some (Arr [2, 0])
   \<and> snd (set_up (Num 0) (Num 1) [(''y'', Arr [2, 0])] Map.empty) ''y'' = None
   \<and> fst (set_up (Num 0) (Num 1) [(''<p>y'', Num 3)] Map.empty)
       = Inl (ValueError ''state variables may not start with <'')"
proof -
  have d1: "distinct (map fst [(''y'', Arr [2, 0])])" by simp
  have d2: "distinct (map fst [(''<p>y'', Num 3)])" by simp
  have r: "bears_reserved_prefix ''<p>y''"
    by (simp add: bears_reserved_prefix_def reserved_prefixes_def)
  show ?thesis
    using set_up_seeds_state [OF d1, of "Num 0" "Num 1" Map.empty]
      set_up_seeds_state [OF d2, of "Num 0" "Num 1" Map.empty] r
    by simp
qed

section \<open>Basic facts about the interpreter\<close>

lemma discard_keeps:
  "prefix ''<state>'' name \<or> prefix ''<p>'' name \<or> name = ''<t>'' \<or> name = ''<dt>''
   \<Longrightarrow> discard_per_step_state st name = st name"
  by (auto simp add: discard_per_step_state_def)

lemma discard_drops:
  "\<not> (prefix ''<state>'' name \<or> prefix ''<p>'' name \<or> name = ''<t>'' \<or> name = ''<dt>'')
   \<Longrightarrow> discard_per_step_state st name = None"
  by (auto simp add: discard_per_step_state_def)

lemma yield_all_Nil: "yield_all [] = []"
  by (simp add: yield_all_def)

lemma StepCompleted_not_yielded: "StepCompleted v \<notin> set (yield_all observations)"
  by (auto simp add: yield_all_def)

text \<open>Rounding a concrete number is a computation.\<close>

lemma find_exponent_numeral:
  "find_exponent (numeral k) x e =
     (if x < 2 powi e then find_exponent (pred_numeral k) x (e - 1)
      else if 2 powi (e + 1) \<le> x then find_exponent (pred_numeral k) x (e + 1)
      else e)"
  by (simp add: numeral_eq_Suc)

lemmas round64_eval = round64_def round_half_even_def find_exponent_numeral Let_def

section \<open>Per-step state is discarded after every iteration\<close>

lemma run_iteration_state:
  assumes "adjust_time_step rnd t_end sl = Inr (st, last_step)"
  shows "fst (snd (snd (run_iteration rnd plan t_end sl))) = discard_per_step_state (snd (snd (plan st)))"
  using assms
  by (cases "plan st")
     (auto simp add: run_iteration_def Let_def split: option.splits)

lemma run_iteration_yields:
  assumes "fst (snd (run_iteration rnd plan t_end sl)) = Continue
           \<or> fst (snd (run_iteration rnd plan t_end sl)) = Break"
  shows "(\<exists>st last_step. adjust_time_step rnd t_end sl = Inr (st, last_step))
       \<and> fst (run_iteration rnd plan t_end sl) \<noteq> []
       \<and> (\<exists>t. last (fst (run_iteration rnd plan t_end sl)) = StepCompleted t
              \<or> last (fst (run_iteration rnd plan t_end sl)) = StepFailed t)"
proof (cases "adjust_time_step rnd t_end sl")
  case (Inl e)
  with assms show ?thesis by (simp add: run_iteration_def)
next
  case (Inr a)
  obtain st last_step where a: "a = (st, last_step)" by (cases a)
  obtain events raised st' where p: "plan st = (events, raised, st')" by (cases "plan st")
  from assms Inr a p show ?thesis
    by (auto simp add: run_iteration_def Let_def split: option.splits if_splits)
qed

text \<open>
  Claim C10. An iteration of \<^verbatim>\<open>run\<close> that ends by yielding StepCompleted or
  StepFailed (the loop continues or breaks; no exception leaves \<^verbatim>\<open>run\<close>) leaves a
  state whose names all start with \<^verbatim>\<open><state>\<close> or \<^verbatim>\<open><p>\<close> or are \<^verbatim>\<open><t>\<close> or
  \<^verbatim>\<open><dt>\<close>: it is the state the step plan left, with every other entry deleted, on
  the fail-step path as on normal completion.
\<close>

theorem run_iteration_leaves_persistent_state:
  "(fst (snd (run_iteration rnd plan t_end sl)) = Continue
    \<or> fst (snd (run_iteration rnd plan t_end sl)) = Break) \<longrightarrow>
     (\<exists>t. last (fst (run_iteration rnd plan t_end sl)) = StepCompleted t
          \<or> last (fst (run_iteration rnd plan t_end sl)) = StepFailed t)
     \<and> (\<forall>name \<in> dom (fst (snd (snd (run_iteration rnd plan t_end sl)))).
           prefix ''<state>'' name \<or> prefix ''<p>'' name \<or> name = ''<t>'' \<or> name = ''<dt>'')
     \<and> (\<exists>st last_step. adjust_time_step rnd t_end sl = Inr (st, last_step)
           \<and> fst (snd (snd (run_iteration rnd plan t_end sl)))
               = discard_per_step_state (snd (snd (plan st))))"
proof
  assume c: "fst (snd (run_iteration rnd plan t_end sl)) = Continue
    \<or> fst (snd (run_iteration rnd plan t_end sl)) = Break"
  from run_iteration_yields [OF c] obtain st last_step
    where a: "adjust_time_step rnd t_end sl = Inr (st, last_step)"
      and l: "\<exists>t. last (fst (run_iteration rnd plan t_end sl)) = StepCompleted t
              \<or> last (fst (run_iteration rnd plan t_end sl)) = StepFailed t"
    by blast
  have s: "fst (snd (snd (run_iteration rnd plan t_end sl)))
      = discard_per_step_state (snd (snd (plan st)))"
    by (rule run_iteration_state [OF a])
  have "\<forall>name \<in> dom (fst (snd (snd (run_iteration rnd plan t_end sl)))).
           prefix ''<state>'' name \<or> prefix ''<p>'' name \<or> name = ''<t>'' \<or> name = ''<dt>''"
    unfolding s using discard_drops by fastforce
  with l a s show "(\<exists>t. last (fst (run_iteration rnd plan t_end sl)) = StepCompleted t
          \<or> last (fst (run_iteration rnd plan t_end sl)) = StepFailed t)
     \<and> (\<forall>name \<in> dom (fst (snd (snd (run_iteration rnd plan t_end sl)))).
           prefix ''<state>'' name \<or> prefix ''<p>'' name \<or> name = ''<t>'' \<or> name = ''<dt>'')
     \<and> (\<exists>st last_step. adjust_time_step rnd t_end sl = Inr (st, last_step)
           \<and> fst (snd (snd (run_iteration rnd plan t_end sl)))
               = discard_per_step_state (snd (snd (plan st))))"
    by blast
qed

lemma fail_iteration:
  "run_iteration round64 (then_exec (exec_AssignExpression eval_mapper ''tmp'' (Constant (PyReal 7))) exec_FailStep)
      (5/2) (example_state, False)
   = ([StepFailed (Num 0)], Continue, (example_state, False))"
  by (simp add: run_iteration_def adjust_time_step_def example_state_def plan_defs Let_def
        discard_per_step_state_def fun_eq_iff round64_eval)

theorem run_iteration_leaves_persistent_state_witness:
  "fst (snd (run_iteration round64
        (then_exec (exec_AssignExpression eval_mapper ''tmp'' (Constant (PyReal 7))) exec_FailStep)
        (5/2) (example_state, False))) = Continue
   \<and> (\<exists>t. last (fst (run_iteration round64
        (then_exec (exec_AssignExpression eval_mapper ''tmp'' (Constant (PyReal 7))) exec_FailStep)
        (5/2) (example_state, False))) = StepCompleted t
      \<or> last (fst (run_iteration round64
        (then_exec (exec_AssignExpression eval_mapper ''tmp'' (Constant (PyReal 7))) exec_FailStep)
        (5/2) (example_state, False))) = StepFailed t)
   \<and> fst (snd (snd (run_iteration round64
        (then_exec (exec_AssignExpression eval_mapper ''tmp'' (Constant (PyReal 7))) exec_FailStep)
        (5/2) (example_state, False)))) ''tmp'' = None
   \<and> fst (snd (then_exec (exec_AssignExpression eval_mapper ''tmp'' (Constant (PyReal 7))) exec_FailStep example_state))
       = Some FailStepException
   \<and> snd (snd (then_exec (exec_AssignExpression eval_mapper ''tmp'' (Constant (PyReal 7))) exec_FailStep example_state))
        ''tmp'' = Some (Num 7)"
proof -
  let ?plan = "then_exec (exec_AssignExpression eval_mapper ''tmp'' (Constant (PyReal 7))) exec_FailStep"
  have c: "fst (snd (run_iteration round64 ?plan (5/2) (example_state, False))) = Continue"
    by (simp add: fail_iteration)
  have p: "?plan example_state = ([], Some FailStepException, example_state(''tmp'' \<mapsto> Num 7))"
    by (simp add: plan_defs)
  from run_iteration_leaves_persistent_state [of round64 ?plan "5/2" "(example_state, False)"] c
  have "\<exists>t. last (fst (run_iteration round64 ?plan (5/2) (example_state, False))) = StepCompleted t
      \<or> last (fst (run_iteration round64 ?plan (5/2) (example_state, False))) = StepFailed t"
    by blast
  moreover have "fst (snd (snd (run_iteration round64 ?plan (5/2) (example_state, False)))) ''tmp'' = None"
    by (simp add: fail_iteration) (simp add: example_state_def)
  ultimately show ?thesis
    using c p by simp
qed

section \<open>A failed step is reported and retried\<close>

lemma adjust_time_step_keeps_t:
  "adjust_time_step rnd t_end sl = Inr (st, last_step) \<Longrightarrow> st ''<t>'' = fst sl ''<t>''"
  by (cases sl)
     (auto simp add: adjust_time_step_def split: option.splits val.splits if_splits)

text \<open>
  Claim C3, as amended. When the step plan signals fail-step, the iteration yields the
  plan's observations followed by StepFailed carrying the value of \<^verbatim>\<open><t>\<close> in the state
  as the failed execution left it, which is the value before the step whenever the plan
  left \<^verbatim>\<open><t>\<close> as it found it; no exception reaches the caller of \<^verbatim>\<open>run\<close>; and the
  loop goes on with the next iteration from the cleaned state, the last-step flag
  unchanged.
\<close>

theorem run_iteration_fail_step:
  assumes "adjust_time_step rnd t_end sl = Inr (st, last_step)"
    and "plan st = (events, Some FailStepException, st')"
    and "st' ''<t>'' = Some t"
  shows "run_iteration rnd plan t_end sl
           = (yield_all events @ [StepFailed t], Continue, (discard_per_step_state st', last_step))
       \<and> run_loop rnd (Suc n) plan t_end sl
           = (yield_all events @ [StepFailed t]
                @ fst (run_loop rnd n plan t_end (discard_per_step_state st', last_step)),
              snd (run_loop rnd n plan t_end (discard_per_step_state st', last_step)))
       \<and> (st' ''<t>'' = st ''<t>'' \<longrightarrow> fst sl ''<t>'' = Some t)"
proof -
  have d: "discard_per_step_state st' ''<t>'' = Some t"
    using assms(3) by (simp add: discard_keeps)
  have i: "run_iteration rnd plan t_end sl
      = (yield_all events @ [StepFailed t], Continue, (discard_per_step_state st', last_step))"
    using assms(1,2) d by (simp add: run_iteration_def Let_def)
  have "run_loop rnd (Suc n) plan t_end sl
      = (yield_all events @ [StepFailed t]
           @ fst (run_loop rnd n plan t_end (discard_per_step_state st', last_step)),
         snd (run_loop rnd n plan t_end (discard_per_step_state st', last_step)))"
    by (simp add: i split: prod.splits)
  moreover have "st' ''<t>'' = st ''<t>'' \<longrightarrow> fst sl ''<t>'' = Some t"
    using adjust_time_step_keeps_t [OF assms(1)] assms(3) by simp
  ultimately show ?thesis using i by simp
qed

lemma adjust_example_state: "adjust_time_step round64 (5/2) (example_state, False) = Inr (example_state, False)"
  by (simp add: adjust_time_step_def example_state_def round64_eval)

theorem run_iteration_fail_step_witness:
  "run_iteration round64 exec_FailStep (5/2) (example_state, False) = ([StepFailed (Num 0)], Continue, (example_state, False))
   \<and> run_loop round64 2 exec_FailStep (5/2) (example_state, False)
       = ([StepFailed (Num 0), StepFailed (Num 0)], Suspended, (example_state, False))
   \<and> fst (example_state, False) ''<t>'' = Some (Num 0)"
proof -
  have p: "exec_FailStep example_state = ([], Some FailStepException, example_state)"
    by (simp add: exec_FailStep_def)
  have t: "example_state ''<t>'' = Some (Num 0)" by (simp add: example_state_def)
  have d: "discard_per_step_state example_state = example_state"
    by (simp add: discard_per_step_state_def example_state_def fun_eq_iff)
  note r = run_iteration_fail_step [where plan = exec_FailStep, OF adjust_example_state p t]
  from r [of 0] have i: "run_iteration round64 exec_FailStep (5/2) (example_state, False)
      = ([StepFailed (Num 0)], Continue, (example_state, False))"
    by (simp add: d yield_all_Nil)
  from r [of 0] have one: "run_loop round64 (Suc 0) exec_FailStep (5/2) (example_state, False)
      = ([StepFailed (Num 0)], Suspended, (example_state, False))"
    by (simp add: d yield_all_Nil)
  from r [of "Suc 0"] have "run_loop round64 (Suc (Suc 0)) exec_FailStep (5/2) (example_state, False)
      = ([StepFailed (Num 0), StepFailed (Num 0)], Suspended, (example_state, False))"
    unfolding d one by (simp add: yield_all_Nil)
  with i t show ?thesis by (simp add: numeral_2_eq_2)
qed

text \<open>
  The claim as stated fails for a plan that assigns \<^verbatim>\<open><t>\<close> before it signals
  fail-step: \<^verbatim>\<open>run\<close> keeps no copy of the time and does not roll the state back, so
  StepFailed carries 1 where \<^verbatim>\<open><t>\<close> was 0 before the step.
\<close>

theorem step_failed_reports_changed_time:
  "fst (example_state, False) ''<t>'' = Some (Num 0)
   \<and> fst (snd (advance_then_fail example_state)) = Some FailStepException
   \<and> fst (run_iteration round64 advance_then_fail (5/2) (example_state, False)) = [StepFailed (Num 1)]"
  by (simp add: run_iteration_def adjust_time_step_def example_state_def plan_defs
        advance_then_fail_def Let_def discard_per_step_state_def round64_eval)

section \<open>The run reaches the end time\<close>

text \<open>
  The iterations of \<^verbatim>\<open>run\<close> under a plan that completes and advances the time: an
  iteration whose float sum \<^verbatim>\<open><t> + <dt>\<close> stays below \<open>t_end\<close> yields StepCompleted
  at that sum and goes on; an iteration whose sum reaches \<open>t_end\<close> computes the step
  \<^verbatim>\<open>t_end - <t>\<close>, yields StepCompleted at \<^verbatim>\<open><t> + (t_end - <t>)\<close> and ends the run.
\<close>

lemma time_after_shift: "time_after rnd (rnd (t + dt)) dt k = time_after rnd t dt (Suc k)"
  by (induction k) simp_all

lemma iteration_not_last:
  assumes p: "completes_advancing rnd plan t dt"
    and t: "s ''<t>'' = Some (Num t)" and dt: "s ''<dt>'' = Some (Num dt)"
    and lt: "rnd (t + dt) < t_end"
  shows "\<exists>observations s'. run_iteration rnd plan t_end (s, False)
            = (yield_all observations @ [StepCompleted (Num (rnd (t + dt)))], Continue, (s', False))
          \<and> s' ''<t>'' = Some (Num (rnd (t + dt))) \<and> s' ''<dt>'' = Some (Num dt)"
proof -
  have a: "adjust_time_step rnd t_end (s, False) = Inr (s, False)"
    using t dt lt by (simp add: adjust_time_step_def)
  from p t dt obtain observations s1 where pl: "plan s = (observations, None, s1)"
    and t1: "s1 ''<t>'' = Some (Num (rnd (t + dt)))" and dt1: "s1 ''<dt>'' = Some (Num dt)"
    unfolding completes_advancing_def by blast
  have "run_iteration rnd plan t_end (s, False)
      = (yield_all observations @ [StepCompleted (Num (rnd (t + dt)))], Continue,
         (discard_per_step_state s1, False))"
    using a pl t1 by (simp add: run_iteration_def Let_def discard_keeps)
  then show ?thesis
    using t1 dt1 by (auto simp add: discard_keeps)
qed

lemma iteration_last:
  assumes p: "completes_advancing rnd plan t (rnd (t_end - t))"
    and t: "s ''<t>'' = Some (Num t)" and dt: "s ''<dt>'' = Some (Num dt)"
    and le: "t \<le> t_end" and ge: "rnd (t + dt) \<ge> t_end"
  shows "\<exists>observations s'. run_iteration rnd plan t_end (s, last_step)
            = (yield_all observations @ [StepCompleted (Num (rnd (t + rnd (t_end - t))))],
               Break, (s', True))
          \<and> s' ''<t>'' = Some (Num (rnd (t + rnd (t_end - t))))
          \<and> s' ''<dt>'' = Some (Num (rnd (t_end - t)))"
proof -
  let ?s1 = "s(''<dt>'' \<mapsto> Num (rnd (t_end - t)))"
  have a: "adjust_time_step rnd t_end (s, last_step) = Inr (?s1, True)"
    using t dt le ge by (simp add: adjust_time_step_def)
  have "?s1 ''<t>'' = Some (Num t)" and "?s1 ''<dt>'' = Some (Num (rnd (t_end - t)))"
    using t by simp_all
  with p obtain observations s2 where pl: "plan ?s1 = (observations, None, s2)"
    and t2: "s2 ''<t>'' = Some (Num (rnd (t + rnd (t_end - t))))"
    and dt2: "s2 ''<dt>'' = Some (Num (rnd (t_end - t)))"
    unfolding completes_advancing_def by blast
  have "run_iteration rnd plan t_end (s, last_step)
      = (yield_all observations @ [StepCompleted (Num (rnd (t + rnd (t_end - t))))], Break,
         (discard_per_step_state s2, True))"
    using a pl t2 by (simp add: run_iteration_def Let_def discard_keeps)
  then show ?thesis
    using t2 dt2 by (auto simp add: discard_keeps)
qed

lemma run_loop_ends_after_clamped_step:
  "s ''<t>'' = Some (Num t) \<Longrightarrow> s ''<dt>'' = Some (Num dt)
   \<Longrightarrow> \<forall>j<k. rnd (time_after rnd t dt j + dt) < t_end
   \<Longrightarrow> t_end \<le> rnd (time_after rnd t dt k + dt)
   \<Longrightarrow> time_after rnd t dt k \<le> t_end
   \<Longrightarrow> \<forall>j<k. completes_advancing rnd plan (time_after rnd t dt j) dt
   \<Longrightarrow> completes_advancing rnd plan (time_after rnd t dt k) (rnd (t_end - time_after rnd t dt k))
   \<Longrightarrow> (\<exists>events final. run_loop rnd (Suc k) plan t_end (s, False) = (events, Returned, (final, True))
           \<and> events \<noteq> []
           \<and> last events = StepCompleted (Num (rnd (time_after rnd t dt k
                                                     + rnd (t_end - time_after rnd t dt k))))
           \<and> (\<forall>v. StepCompleted v \<in> set (butlast events) \<longrightarrow> (\<exists>u. v = Num u \<and> u < t_end))
           \<and> final ''<t>'' = Some (Num (rnd (time_after rnd t dt k
                                                + rnd (t_end - time_after rnd t dt k)))))
       \<and> (\<forall>n\<le>k. fst (snd (run_loop rnd n plan t_end (s, False))) = Suspended)"
proof (induction k arbitrary: s t)
  case 0
  let ?final = "rnd (t + rnd (t_end - t))"
  from "0.prems" have le: "t \<le> t_end" and ge: "t_end \<le> rnd (t + dt)"
    and p: "completes_advancing rnd plan t (rnd (t_end - t))" by simp_all
  from iteration_last [OF p "0.prems"(1,2) le ge, of False] obtain observations s'
    where i: "run_iteration rnd plan t_end (s, False)
            = (yield_all observations @ [StepCompleted (Num ?final)], Break, (s', True))"
      and t': "s' ''<t>'' = Some (Num ?final)" by blast
  have "run_loop rnd (Suc 0) plan t_end (s, False)
      = (yield_all observations @ [StepCompleted (Num ?final)], Returned, (s', True))"
    by (simp add: i)
  with t' have "\<exists>events final. run_loop rnd (Suc 0) plan t_end (s, False) = (events, Returned, (final, True))
           \<and> events \<noteq> [] \<and> last events = StepCompleted (Num ?final)
           \<and> (\<forall>v. StepCompleted v \<in> set (butlast events) \<longrightarrow> (\<exists>u. v = Num u \<and> u < t_end))
           \<and> final ''<t>'' = Some (Num ?final)"
    by (intro exI [of _ "yield_all observations @ [StepCompleted (Num ?final)]"] exI [of _ s'])
       (simp add: butlast_append StepCompleted_not_yielded)
  then show ?case by simp
next
  case (Suc k)
  let ?t1 = "rnd (t + dt)"
  let ?tk = "time_after rnd t dt (Suc k)"
  let ?final = "rnd (?tk + rnd (t_end - ?tk))"
  from Suc.prems(3) [rule_format, of 0] have lt: "?t1 < t_end" by simp
  from Suc.prems(6) [rule_format, of 0] have p: "completes_advancing rnd plan t dt" by simp
  from iteration_not_last [OF p Suc.prems(1,2) lt] obtain observations1 s1
    where i: "run_iteration rnd plan t_end (s, False)
            = (yield_all observations1 @ [StepCompleted (Num ?t1)], Continue, (s1, False))"
      and t1: "s1 ''<t>'' = Some (Num ?t1)" and dt1: "s1 ''<dt>'' = Some (Num dt)"
    by blast
  have h3: "\<forall>j<k. rnd (time_after rnd ?t1 dt j + dt) < t_end"
    using Suc.prems(3) by (auto simp add: time_after_shift simp del: time_after.simps)
  have h4: "t_end \<le> rnd (time_after rnd ?t1 dt k + dt)"
    using Suc.prems(4) by (simp add: time_after_shift del: time_after.simps)
  have h5: "time_after rnd ?t1 dt k \<le> t_end"
    using Suc.prems(5) by (simp add: time_after_shift del: time_after.simps)
  have h6: "\<forall>j<k. completes_advancing rnd plan (time_after rnd ?t1 dt j) dt"
    using Suc.prems(6) by (auto simp add: time_after_shift simp del: time_after.simps)
  have h7: "completes_advancing rnd plan (time_after rnd ?t1 dt k)
              (rnd (t_end - time_after rnd ?t1 dt k))"
    using Suc.prems(7) by (simp add: time_after_shift del: time_after.simps)
  from Suc.IH [OF t1 dt1 h3 h4 h5 h6 h7] obtain events final
    where r: "run_loop rnd (Suc k) plan t_end (s1, False) = (events, Returned, (final, True))"
      and ne: "events \<noteq> []" and l: "last events = StepCompleted (Num ?final)"
      and b: "\<forall>v. StepCompleted v \<in> set (butlast events) \<longrightarrow> (\<exists>u. v = Num u \<and> u < t_end)"
      and f: "final ''<t>'' = Some (Num ?final)"
      and su: "\<forall>n\<le>k. fst (snd (run_loop rnd n plan t_end (s1, False))) = Suspended"
    unfolding time_after_shift by blast
  let ?events = "(yield_all observations1 @ [StepCompleted (Num ?t1)]) @ events"
  have "run_loop rnd (Suc (Suc k)) plan t_end (s, False) = (?events, Returned, (final, True))"
    using i r by (simp del: run_loop.simps add: run_loop.simps(2) [of rnd "Suc k"])
  moreover have "last ?events = StepCompleted (Num ?final)"
    using ne l by simp
  moreover have "\<forall>v. StepCompleted v \<in> set (butlast ?events) \<longrightarrow> (\<exists>u. v = Num u \<and> u < t_end)"
    using ne b lt by (auto simp add: butlast_append StepCompleted_not_yielded)
  ultimately have first: "\<exists>events final. run_loop rnd (Suc (Suc k)) plan t_end (s, False)
             = (events, Returned, (final, True))
           \<and> events \<noteq> [] \<and> last events = StepCompleted (Num ?final)
           \<and> (\<forall>v. StepCompleted v \<in> set (butlast events) \<longrightarrow> (\<exists>u. v = Num u \<and> u < t_end))
           \<and> final ''<t>'' = Some (Num ?final)"
    using ne f by (intro exI [of _ ?events] exI [of _ final]) simp
  have "\<forall>n\<le>Suc k. fst (snd (run_loop rnd n plan t_end (s, False))) = Suspended"
  proof (intro allI impI)
    fix n assume n: "n \<le> Suc k"
    show "fst (snd (run_loop rnd n plan t_end (s, False))) = Suspended"
    proof (cases n)
      case 0
      then show ?thesis by simp
    next
      case (Suc m)
      with n su have m: "fst (snd (run_loop rnd m plan t_end (s1, False))) = Suspended" by simp
      obtain events' outcome where rm: "run_loop rnd m plan t_end (s1, False) = (events', outcome)"
        by (cases "run_loop rnd m plan t_end (s1, False)")
      with m have "fst outcome = Suspended" by simp
      with Suc i rm show ?thesis by simp
    qed
  qed
  with first show ?case by blast
qed

text \<open>
  Claim C2, as amended. However the operations on floats round: take a state with
  \<^verbatim>\<open><t>\<close> at \<open>t_start\<close> and \<^verbatim>\<open><dt>\<close> at \<open>dt_start\<close>, and suppose that after \<open>k\<close>
  steps of size \<open>dt_start\<close> the float sum \<^verbatim>\<open><t> + <dt>\<close> reaches \<open>t_end\<close> for the
  first time, with \<^verbatim>\<open><t>\<close> still at most \<open>t_end\<close>, and that the step plan, at each of
  the times reached, completes, sets \<^verbatim>\<open><t>\<close> to the float sum \<^verbatim>\<open><t> + <dt>\<close> and
  leaves \<^verbatim>\<open><dt>\<close> unchanged. Then \<^verbatim>\<open>run\<close> returns in its iteration \<open>k + 1\<close>, and not
  before, with the last-step flag set; every StepCompleted before the last has a time
  below \<open>t_end\<close>; and the last event is StepCompleted at the float sum
  \<^verbatim>\<open><t> + (t_end - <t>)\<close>, which is \<open>t_end\<close> when these two operations are exact. And
  in every iteration, for every state, the head of the loop either finds the float sum
  \<^verbatim>\<open><t> + <dt>\<close> below \<open>t_end\<close> and leaves the state and the flag as they are, or
  replaces \<^verbatim>\<open><dt>\<close> by the float difference \<^verbatim>\<open>t_end - <t>\<close> and sets the flag.
\<close>

theorem run_ends_after_clamped_step:
  assumes "st ''<t>'' = Some (Num t_start)" and "st ''<dt>'' = Some (Num dt_start)"
    and "\<forall>j<k. rnd (time_after rnd t_start dt_start j + dt_start) < t_end"
    and "t_end \<le> rnd (time_after rnd t_start dt_start k + dt_start)"
    and "time_after rnd t_start dt_start k \<le> t_end"
    and "\<forall>j<k. completes_advancing rnd plan (time_after rnd t_start dt_start j) dt_start"
    and "completes_advancing rnd plan (time_after rnd t_start dt_start k)
           (rnd (t_end - time_after rnd t_start dt_start k))"
  shows "(\<exists>events final. run rnd (Suc k) plan t_end st = (events, Returned, (final, True))
            \<and> events \<noteq> []
            \<and> last events = StepCompleted (Num (rnd (time_after rnd t_start dt_start k
                                    + rnd (t_end - time_after rnd t_start dt_start k))))
            \<and> (\<forall>v. StepCompleted v \<in> set (butlast events) \<longrightarrow> (\<exists>u. v = Num u \<and> u < t_end))
            \<and> final ''<t>'' = Some (Num (rnd (time_after rnd t_start dt_start k
                                    + rnd (t_end - time_after rnd t_start dt_start k)))))
       \<and> (\<forall>n\<le>k. fst (snd (run rnd n plan t_end st)) = Suspended)
       \<and> (\<forall>sl s last_step t dt.
              fst sl ''<t>'' = Some (Num t) \<and> fst sl ''<dt>'' = Some (Num dt)
              \<and> adjust_time_step rnd t_end sl = Inr (s, last_step)
            \<longrightarrow> (rnd (t + dt) < t_end \<and> s = fst sl \<and> last_step = snd sl)
                \<or> (t_end \<le> rnd (t + dt) \<and> t \<le> t_end
                    \<and> s = (fst sl)(''<dt>'' \<mapsto> Num (rnd (t_end - t))) \<and> last_step))"
proof -
  have "\<forall>sl s last_step t dt.
              fst sl ''<t>'' = Some (Num t) \<and> fst sl ''<dt>'' = Some (Num dt)
              \<and> adjust_time_step rnd t_end sl = Inr (s, last_step)
            \<longrightarrow> (rnd (t + dt) < t_end \<and> s = fst sl \<and> last_step = snd sl)
                \<or> (t_end \<le> rnd (t + dt) \<and> t \<le> t_end
                    \<and> s = (fst sl)(''<dt>'' \<mapsto> Num (rnd (t_end - t))) \<and> last_step)"
    by (auto simp add: adjust_time_step_def split: if_splits)
  with run_loop_ends_after_clamped_step [OF assms] show ?thesis
    unfolding run_def by blast
qed

text \<open>
  With IEEE doubles, from \<^verbatim>\<open><t> = 0\<close> and \<^verbatim>\<open><dt> = 1\<close>, \<^verbatim>\<open>run(t_end=2.5)\<close> under the
  plan \<^verbatim>\<open><t> := <t> + <dt>\<close>: the sum reaches \<open>t_end\<close> after two steps, the third
  iteration sets \<^verbatim>\<open><dt>\<close> to 0.5, and all the operations are exact, so the run ends
  with StepCompleted at 2.5.
\<close>

lemma advance_time_completes:
  "round64 t = t \<Longrightarrow> completes_advancing round64 advance_time t dt"
  by (simp add: completes_advancing_def plan_defs round64_def [of 0])

theorem run_ends_after_clamped_step_witness:
  "example_state ''<t>'' = Some (Num 0) \<and> example_state ''<dt>'' = Some (Num 1)
   \<and> time_after round64 0 1 2 = 2
   \<and> round64 (time_after round64 0 1 0 + 1) < 5/2
   \<and> round64 (time_after round64 0 1 1 + 1) < 5/2
   \<and> 5/2 \<le> round64 (time_after round64 0 1 2 + 1)
   \<and> completes_advancing round64 advance_time (time_after round64 0 1 0) 1
   \<and> completes_advancing round64 advance_time (time_after round64 0 1 1) 1
   \<and> completes_advancing round64 advance_time (time_after round64 0 1 2) (round64 (5/2 - 2))
   \<and> (\<exists>events final. run round64 3 advance_time (5/2) example_state = (events, Returned, (final, True))
         \<and> events \<noteq> [] \<and> last events = StepCompleted (Num (5/2))
         \<and> final ''<t>'' = Some (Num (5/2)))
   \<and> fst (run round64 3 advance_time (5/2) example_state)
       = [StepCompleted (Num 1), StepCompleted (Num 2), StepCompleted (Num (5/2))]
   \<and> fst (snd (run round64 2 advance_time (5/2) example_state)) = Suspended"
proof -
  have t: "example_state ''<t>'' = Some (Num 0)" and dt: "example_state ''<dt>'' = Some (Num 1)"
    by (simp_all add: example_state_def)
  have r0: "round64 0 = 0" and r1: "round64 1 = 1" and r2: "round64 2 = 2" and r3: "round64 3 = 3"
    and rh: "round64 (1/2) = 1/2" and r52: "round64 (5/2) = 5/2"
    by (simp_all add: round64_eval)
  have T: "time_after round64 0 1 0 = 0" "time_after round64 0 1 1 = 1" "time_after round64 0 1 2 = 2"
    by (simp_all add: numeral_2_eq_2 r1 r2)
  have c: "completes_advancing round64 advance_time 0 1"
      "completes_advancing round64 advance_time 1 1"
      "completes_advancing round64 advance_time 2 (1/2)"
    by (simp_all add: advance_time_completes r0 r1 r2)
  have h3: "\<forall>j<2. round64 (time_after round64 0 1 j + 1) < 5/2"
    by (simp add: numeral_2_eq_2 less_Suc_eq r1 r2)
  have h6: "\<forall>j<2. completes_advancing round64 advance_time (time_after round64 0 1 j) 1"
    using c by (simp add: numeral_2_eq_2 less_Suc_eq r1)
  have h7: "completes_advancing round64 advance_time (time_after round64 0 1 2)
              (round64 (5/2 - time_after round64 0 1 2))"
    using c by (simp add: T rh)
  have "\<exists>events final. run round64 (Suc 2) advance_time (5/2) example_state = (events, Returned, (final, True))
         \<and> events \<noteq> [] \<and> last events = StepCompleted (Num (5/2))
         \<and> final ''<t>'' = Some (Num (5/2))"
    using run_ends_after_clamped_step [where rnd = round64 and plan = advance_time and k = 2
        and t_end = "5/2", OF t dt h3 _ _ h6 h7]
    by (simp add: T r3 rh r52) blast
  then have e: "\<exists>events final. run round64 3 advance_time (5/2) example_state = (events, Returned, (final, True))
         \<and> events \<noteq> [] \<and> last events = StepCompleted (Num (5/2))
         \<and> final ''<t>'' = Some (Num (5/2))"
    by (simp add: numeral_3_eq_3 numeral_2_eq_2)
  have "fst (run round64 3 advance_time (5/2) example_state)
       = [StepCompleted (Num 1), StepCompleted (Num 2), StepCompleted (Num (5/2))]
     \<and> fst (snd (run round64 2 advance_time (5/2) example_state)) = Suspended"
    by (simp add: run_def numeral_3_eq_3 numeral_2_eq_2 run_iteration_def adjust_time_step_def
          example_state_def plan_defs Let_def discard_per_step_state_def r0 r1 r2 r3 rh r52)
  with e t dt c show ?thesis
    by (simp add: T r1 r2 r3 rh)
qed


text \<open>
  The claim as stated fails in three ways, each on IEEE doubles. From \<^verbatim>\<open><t> = 0.3\<close>
  and \<^verbatim>\<open><dt> = 1.0\<close>, \<^verbatim>\<open>run(t_end=0.9)\<close> sets \<^verbatim>\<open><dt>\<close> to \<^verbatim>\<open>0.9 - 0.3\<close>, which is
  0.6000000000000001, and the completed step carries \<^verbatim>\<open>0.3 + 0.6000000000000001\<close>,
  which is 0.9000000000000001: neither equal to \<open>t_end\<close> nor at most \<open>t_end\<close>. The
  claim assumes only that successful executions advance \<^verbatim>\<open><t>\<close> by \<^verbatim>\<open><dt>\<close>: the plan
  \<open>reject_or_accept\<close> satisfies that, and \<^verbatim>\<open>run(t_end=1)\<close> from \<^verbatim>\<open><t> = 0\<close>,
  \<^verbatim>\<open><dt> = 1\<close> returns after StepFailed(0) and StepCompleted(1/2): the first
  iteration sets the last-step flag, the step is rejected with \<^verbatim>\<open><dt>\<close> halved, and
  the flag, never reset, ends the run after the next completed step. And from
  \<^verbatim>\<open><t> = 2.0**53\<close> with \<^verbatim>\<open><dt> = 1.0\<close> the float sum \<^verbatim>\<open><t> + <dt>\<close> is \<^verbatim>\<open><t>\<close>
  again: an iteration of \<^verbatim>\<open>run(t_end=2.0**54)\<close> completes the step and leaves the state
  as it found it, so no later iteration differs and the run never ends.
\<close>

lemma reject_or_accept_advances:
  "round64 t = t \<Longrightarrow> s ''<t>'' = Some (Num t) \<Longrightarrow> s ''<dt>'' = Some (Num dt) \<Longrightarrow>
   reject_or_accept s = (observations, None, s') \<Longrightarrow> s' ''<t>'' = Some (Num (round64 (t + dt)))"
  by (auto simp add: plan_defs reject_or_accept_def round64_def [of 0] split: if_splits)

theorem run_overshoots_or_stops_short:
  "round64 (3/10) = 5404319552844595 / 18014398509481984
   \<and> round64 (9/10) = 8106479329266893 / 9007199254740992
   \<and> fst (run round64 1 advance_time (round64 (9/10))
             [''<t>'' \<mapsto> Num (round64 (3/10)), ''<dt>'' \<mapsto> Num 1])
       = [StepCompleted (Num (8106479329266894 / 9007199254740992))]
   \<and> fst (snd (run round64 1 advance_time (round64 (9/10))
                  [''<t>'' \<mapsto> Num (round64 (3/10)), ''<dt>'' \<mapsto> Num 1])) = Returned
   \<and> round64 (9/10) < 8106479329266894 / 9007199254740992
   \<and> fst (run round64 2 reject_or_accept 1 example_state)
       = [StepFailed (Num 0), StepCompleted (Num (1/2))]
   \<and> fst (snd (run round64 2 reject_or_accept 1 example_state)) = Returned
   \<and> run_iteration round64 advance_time 18014398509481984
        ([''<t>'' \<mapsto> Num 9007199254740992, ''<dt>'' \<mapsto> Num 1], False)
       = ([StepCompleted (Num 9007199254740992)], Continue,
          ([''<t>'' \<mapsto> Num 9007199254740992, ''<dt>'' \<mapsto> Num 1], False))"
proof -
  have a: "round64 (3/10) = 5404319552844595 / 18014398509481984"
    and b: "round64 (9/10) = 8106479329266893 / 9007199254740992"
    by (simp_all add: round64_eval)
  have "fst (run round64 1 advance_time (8106479329266893 / 9007199254740992)
             [''<t>'' \<mapsto> Num (5404319552844595 / 18014398509481984), ''<dt>'' \<mapsto> Num 1])
       = [StepCompleted (Num (8106479329266894 / 9007199254740992))]
     \<and> fst (snd (run round64 1 advance_time (8106479329266893 / 9007199254740992)
             [''<t>'' \<mapsto> Num (5404319552844595 / 18014398509481984), ''<dt>'' \<mapsto> Num 1]))
         = Returned"
    by (simp add: run_def run_iteration_def adjust_time_step_def plan_defs Let_def
          discard_per_step_state_def round64_eval)
  moreover have "fst (run round64 2 reject_or_accept 1 example_state)
       = [StepFailed (Num 0), StepCompleted (Num (1/2))]
     \<and> fst (snd (run round64 2 reject_or_accept 1 example_state)) = Returned"
    by (simp add: run_def numeral_2_eq_2 run_iteration_def adjust_time_step_def
          example_state_def plan_defs reject_or_accept_def Let_def discard_per_step_state_def
          round64_eval)
  moreover have "run_iteration round64 advance_time 18014398509481984
        ([''<t>'' \<mapsto> Num 9007199254740992, ''<dt>'' \<mapsto> Num 1], False)
       = ([StepCompleted (Num 9007199254740992)], Continue,
          ([''<t>'' \<mapsto> Num 9007199254740992, ''<dt>'' \<mapsto> Num 1], False))"
    by (simp add: run_iteration_def adjust_time_step_def plan_defs Let_def
          discard_per_step_state_def round64_eval fun_eq_iff)
  ultimately show ?thesis
    by (simp add: a b)
qed

text \<open>
  The run from \<^verbatim>\<open><t> = 2.0**53\<close> has not ended after any number of iterations.
\<close>

lemma run_stalls_when_dt_is_absorbed:
  "run_loop round64 n advance_time 18014398509481984
       ([''<t>'' \<mapsto> Num 9007199254740992, ''<dt>'' \<mapsto> Num 1], False)
     = (replicate n (StepCompleted (Num 9007199254740992)), Suspended,
        ([''<t>'' \<mapsto> Num 9007199254740992, ''<dt>'' \<mapsto> Num 1], False))"
proof -
  define st :: state where "st = [''<t>'' \<mapsto> Num 9007199254740992, ''<dt>'' \<mapsto> Num 1]"
  have i: "run_iteration round64 advance_time 18014398509481984 (st, False)
       = ([StepCompleted (Num 9007199254740992)], Continue, (st, False))"
    unfolding st_def
    by (simp add: run_iteration_def adjust_time_step_def plan_defs Let_def
          discard_per_step_state_def round64_eval fun_eq_iff)
  have "run_loop round64 n advance_time 18014398509481984 (st, False)
     = (replicate n (StepCompleted (Num 9007199254740992)), Suspended, (st, False))"
    by (induction n) (simp_all add: i)
  then show ?thesis unfolding st_def .
qed

text \<open>
  Nor can \<^verbatim>\<open>run\<close> end while every execution of the plan signals fail-step: the
  failed step is retried without bound, by design.
\<close>

lemma run_retries_without_bound:
  "run_loop round64 n exec_FailStep (5/2) (example_state, False)
     = (replicate n (StepFailed (Num 0)), Suspended, (example_state, False))"
proof (induction n)
  case 0
  show ?case by simp
next
  case (Suc n)
  have "run_iteration round64 exec_FailStep (5/2) (example_state, False)
      = ([StepFailed (Num 0)], Continue, (example_state, False))"
    by (simp add: run_iteration_def adjust_time_step_def example_state_def exec_FailStep_def
          yield_all_def Let_def discard_per_step_state_def fun_eq_iff round64_eval)
  with Suc show ?case by simp
qed

section \<open>Sums and products in kind inference\<close>

lemma unify_Inr_None: "unify a b = Inr None \<longleftrightarrow> a = None \<and> b = None"
  by (cases a; cases b) (auto simp add: unify_def split: symbol_kind.splits)

lemma unify_not_unable: "unify a b \<noteq> Inl UnableToInferKind"
  by (cases a; cases b) (auto simp add: unify_def split: symbol_kind.splits)

lemma map_sum_loop_ignores:
  "map_sum_loop rs kind = map_sum_loop (filter (\<lambda>r. r \<noteq> Inl UnableToInferKind) rs) kind"
  by (induction rs arbitrary: kind) (auto split: sum.splits)

lemma map_sum_loop_as_product:
  "Inl UnableToInferKind \<notin> set rs \<Longrightarrow>
   map_sum_loop rs kind =
     (case map_product_like rs kind of
        Inl e \<Rightarrow> Inl e
      | Inr None \<Rightarrow> Inl UnableToInferKind
      | Inr (Some k) \<Rightarrow> Inr (Some k))"
  by (induction rs arbitrary: kind) (auto split: sum.splits option.splits)

lemma map_sum_loop_unable:
  "map_sum_loop rs kind = Inl UnableToInferKind \<longleftrightarrow>
   kind = None \<and> (\<forall>r \<in> set rs. r = Inl UnableToInferKind \<or> r = Inr None)"
proof (induction rs arbitrary: kind)
  case Nil
  then show ?case by (simp split: option.splits)
next
  case (Cons r rs)
  show ?case
  proof (cases r)
    case (Inl e)
    with Cons show ?thesis by auto
  next
    case (Inr ch_kind)
    show ?thesis
    proof (cases "unify kind ch_kind")
      case (Inl e)
      with Inr unify_not_unable [of kind ch_kind] unify_Inr_None [of kind ch_kind]
      show ?thesis by auto
    next
      case u: (Inr kind')
      with Inr Cons [of kind'] unify_Inr_None [of kind ch_kind]
      show ?thesis by auto
    qed
  qed
qed

lemma map_product_like_all_inferable:
  "map_product_like (map Inr ks) kind = unify_all ks kind"
  by (induction ks arbitrary: kind) (auto split: sum.splits)

lemma map_product_like_append:
  "map_product_like (map Inr ks @ rs) kind =
     (case unify_all ks kind of Inl e \<Rightarrow> Inl e | Inr kind' \<Rightarrow> map_product_like rs kind')"
  by (induction ks arbitrary: kind) (auto split: sum.splits)

lemma map_product_like_unable:
  "Inl UnableToInferKind \<in> set rs \<Longrightarrow> isl (map_product_like rs kind)"
  by (induction rs arbitrary: kind) (auto split: sum.splits)

lemma Inl_not_in_map_Inr: "Inl e \<notin> set (map Inr ks)"
  by auto

lemma results_of_inferable:
  "\<forall>c \<in> set children. \<exists>k. K c = Inr k \<Longrightarrow> map K children = map Inr (map (projr \<circ> K) children)"
  by (induction children) auto

lemma results_ignoring_unable:
  "\<forall>c \<in> set children. K c = Inl UnableToInferKind \<or> (\<exists>k. K c = Inr k) \<Longrightarrow>
   filter (\<lambda>r. r \<noteq> Inl UnableToInferKind) (map K children)
     = map Inr (map (projr \<circ> K) (filter (\<lambda>c. \<not> isl (K c)) children))"
  by (induction children) auto

text \<open>
  Claim C7, as amended. Kind inference of a sum ignores the children that raise
  cannot-infer-yet: it gives what it gives on the other children alone; when every
  other child yields a kind, the result unifies exactly those kinds, in order; and it
  raises cannot-infer-yet exactly when every child either raises cannot-infer-yet or
  yields no kind (\<^verbatim>\<open>None\<close>). Kind inference of a product infers and unifies the
  operands from left to right and stops at the first exception: when every operand
  yields a kind, the result unifies the kinds of all operands; an operand that raises
  cannot-infer-yet makes the product raise cannot-infer-yet when the operands before it
  yield kinds that unify, and in any case makes the product raise. A quotient is the
  product of its numerator and denominator.
\<close>

theorem sum_and_product_kind_inference:
  "KindInferenceMapper reg g l (Sum children)
     = KindInferenceMapper reg g l
         (Sum (filter (\<lambda>c. KindInferenceMapper reg g l c \<noteq> Inl UnableToInferKind) children))
   \<and> ((\<forall>c \<in> set children. KindInferenceMapper reg g l c = Inl UnableToInferKind
                            \<or> (\<exists>k. KindInferenceMapper reg g l c = Inr k)) \<longrightarrow>
        KindInferenceMapper reg g l (Sum children)
          = (case unify_all (map (projr \<circ> KindInferenceMapper reg g l)
                              (filter (\<lambda>c. \<not> isl (KindInferenceMapper reg g l c)) children)) None of
               Inl e \<Rightarrow> Inl e
             | Inr None \<Rightarrow> Inl UnableToInferKind
             | Inr (Some k) \<Rightarrow> Inr (Some k)))
   \<and> (KindInferenceMapper reg g l (Sum children) = Inl UnableToInferKind \<longleftrightarrow>
        (\<forall>c \<in> set children. KindInferenceMapper reg g l c = Inl UnableToInferKind
                            \<or> KindInferenceMapper reg g l c = Inr None))
   \<and> ((\<forall>c \<in> set children. \<exists>k. KindInferenceMapper reg g l c = Inr k) \<longrightarrow>
        KindInferenceMapper reg g l (Product children)
          = unify_all (map (projr \<circ> KindInferenceMapper reg g l) children) None)
   \<and> ((\<forall>c \<in> set before. \<exists>k. KindInferenceMapper reg g l c = Inr k)
        \<and> \<not> isl (unify_all (map (projr \<circ> KindInferenceMapper reg g l) before) None)
        \<and> KindInferenceMapper reg g l operand = Inl UnableToInferKind \<longrightarrow>
        KindInferenceMapper reg g l (Product (before @ operand # rest)) = Inl UnableToInferKind)
   \<and> ((\<exists>c \<in> set children. KindInferenceMapper reg g l c = Inl UnableToInferKind) \<longrightarrow>
        isl (KindInferenceMapper reg g l (Product children)))
   \<and> KindInferenceMapper reg g l (Quotient numerator denominator)
       = KindInferenceMapper reg g l (Product [numerator, denominator])"
proof -
  let ?K = "KindInferenceMapper reg g l"
  have s_a: "?K (Sum children) = ?K (Sum (filter (\<lambda>c. ?K c \<noteq> Inl UnableToInferKind) children))"
    using map_sum_loop_ignores [of "map ?K children" None]
    by (simp add: filter_map comp_def)
  have s_b: "?K (Sum children)
          = (case unify_all (map (projr \<circ> ?K) (filter (\<lambda>c. \<not> isl (?K c)) children)) None of
               Inl e \<Rightarrow> Inl e
             | Inr None \<Rightarrow> Inl UnableToInferKind
             | Inr (Some k) \<Rightarrow> Inr (Some k))"
    if h: "\<forall>c \<in> set children. ?K c = Inl UnableToInferKind \<or> (\<exists>k. ?K c = Inr k)"
  proof -
    let ?ks = "map (projr \<circ> ?K) (filter (\<lambda>c. \<not> isl (?K c)) children)"
    have "?K (Sum children) = map_sum_loop (map Inr ?ks) None"
      using map_sum_loop_ignores [of "map ?K children" None]
      by (simp only: KindInferenceMapper.simps results_ignoring_unable [OF h])
    also have "\<dots> = (case map_product_like (map Inr ?ks) None of
               Inl e \<Rightarrow> Inl e
             | Inr None \<Rightarrow> Inl UnableToInferKind
             | Inr (Some k) \<Rightarrow> Inr (Some k))"
      by (rule map_sum_loop_as_product) (rule Inl_not_in_map_Inr)
    finally show ?thesis
      by (simp only: map_product_like_all_inferable)
  qed
  have s_c: "?K (Sum children) = Inl UnableToInferKind \<longleftrightarrow>
        (\<forall>c \<in> set children. ?K c = Inl UnableToInferKind \<or> ?K c = Inr None)"
    by (simp add: map_sum_loop_unable)
  have p_a: "?K (Product children) = unify_all (map (projr \<circ> ?K) children) None"
    if h: "\<forall>c \<in> set children. \<exists>k. ?K c = Inr k"
    by (simp only: KindInferenceMapper.simps results_of_inferable [OF h]
          map_product_like_all_inferable)
  have p_b: "?K (Product (before @ operand # rest)) = Inl UnableToInferKind"
    if h: "\<forall>c \<in> set before. \<exists>k. ?K c = Inr k"
      and u: "\<not> isl (unify_all (map (projr \<circ> ?K) before) None)"
      and o: "?K operand = Inl UnableToInferKind"
  proof -
    from u obtain kind where k: "unify_all (map (projr \<circ> ?K) before) None = Inr kind"
      by (cases "unify_all (map (projr \<circ> ?K) before) None") auto
    have "?K (Product (before @ operand # rest))
        = map_product_like (map Inr (map (projr \<circ> ?K) before) @ (?K operand # map ?K rest)) None"
      by (simp only: KindInferenceMapper.simps map_append list.map results_of_inferable [OF h])
    then show ?thesis
      by (simp only: map_product_like_append k o) simp
  qed
  have p_c: "isl (?K (Product children))" if "\<exists>c \<in> set children. ?K c = Inl UnableToInferKind"
  proof -
    from that have "Inl UnableToInferKind \<in> set (map ?K children)" by force
    then show ?thesis by (simp add: map_product_like_unable)
  qed
  have q: "?K (Quotient numerator denominator) = ?K (Product [numerator, denominator])"
    by simp
  from s_a s_b s_c p_a p_b p_c q show ?thesis by blast
qed

text \<open>
  The claim as stated fails where a hard error comes first: in the product
  \<^verbatim>\<open>b * 1 * x\<close> with \<^verbatim>\<open>b\<close> a flag and \<^verbatim>\<open>x\<close> not yet inferable, unifying Boolean with
  Scalar raises ValueError before \<^verbatim>\<open>x\<close> is looked at.
\<close>

theorem product_hard_error_before_uninferable_operand:
  "KindInferenceMapper Map.empty Map.empty [''b'' \<mapsto> Some Boolean] (Variable ''x'')
     = Inl UnableToInferKind
   \<and> KindInferenceMapper Map.empty Map.empty [''b'' \<mapsto> Some Boolean]
        (Product [Variable ''b'', Constant (PyReal 1), Variable ''x''])
     = Inl (ValueError ''arithmetic with flags is not permitted'')"
  by (simp add: unify_def)

theorem sum_and_product_kind_inference_witness:
  "KindInferenceMapper Map.empty (global_table SymbolKindTable_init) [''y'' \<mapsto> Some (Array True)]
      (Sum [Variable ''x'', Variable ''y'', Variable ''<t>'']) = Inr (Some (Array True))
   \<and> KindInferenceMapper Map.empty (global_table SymbolKindTable_init) [''y'' \<mapsto> Some (Array True)]
      (Sum [Variable ''x'']) = Inl UnableToInferKind
   \<and> KindInferenceMapper Map.empty (global_table SymbolKindTable_init) [''y'' \<mapsto> Some (Array True)]
      (Product [Variable ''y'', Variable ''x'', Variable ''<t>'']) = Inl UnableToInferKind
   \<and> KindInferenceMapper Map.empty (global_table SymbolKindTable_init) [''y'' \<mapsto> Some (Array True)]
      (Product [Variable ''y'', Variable ''<t>'']) = Inr (Some (Array True))
   \<and> KindInferenceMapper Map.empty (global_table SymbolKindTable_init) [''y'' \<mapsto> Some (Array True)]
      (Quotient (Variable ''y'') (Variable ''x'')) = Inl UnableToInferKind"
  using sum_and_product_kind_inference
      [of Map.empty "global_table SymbolKindTable_init" "[''y'' \<mapsto> Some (Array True)]"
          "[Variable ''x'', Variable ''y'', Variable ''<t>'']" "[Variable ''y'']" "Variable ''x''"
          "[Variable ''<t>'']" "Variable ''y''" "Variable ''x''"]
    sum_and_product_kind_inference
      [of Map.empty "global_table SymbolKindTable_init" "[''y'' \<mapsto> Some (Array True)]"
          "[Variable ''y'', Variable ''<t>'']" "[Variable ''y'']" "Variable ''x''"
          "[Variable ''<t>'']" "Variable ''y''" "Variable ''x''"]
  by (simp add: SymbolKindTable_init_def unify_def)

section \<open>The kind solver terminates\<close>

lemma finder_loop_unfold:
  "finder_loop reg isv s =
     (case finder_step reg isv s of
        Next s' \<Rightarrow> finder_loop reg isv s'
      | Return tbl \<Rightarrow> Return tbl
      | FailedToInferTypes \<Rightarrow> FailedToInferTypes
      | Propagate e \<Rightarrow> Propagate e)"
  by (subst finder_loop.simps) (simp split: finder_outcome.splits)

lemma finder_loop_final: "finder_loop reg isv s \<noteq> Next s'"
proof (induction reg isv s rule: finder_loop.induct)
  case (1 reg isv s)
  show ?case
  proof (cases "finder_step reg isv s")
    case (Next s1)
    with 1 show ?thesis by (subst finder_loop_unfold) simp
  qed (simp_all add: finder_loop_unfold [of reg isv s])
qed

lemma process_instruction_not_failed:
  "process_instruction reg isv s \<noteq> FailedToInferTypes"
  "process_instruction reg isv s \<noteq> Return tbl"
  by (cases "last (insn_queue s)";
      auto simp add: process_instruction_def Let_def
        split: instruction.splits sum.splits if_splits prod.splits)+

lemma finder_step_failed_iff:
  "finder_step reg isv s = FailedToInferTypes \<longleftrightarrow>
   insn_queue s = [] \<and> insn_queue_push_buffer s \<noteq> [] \<and> \<not> made_progress s"
  by (auto simp add: finder_step_def process_instruction_not_failed)

lemma finder_step_return_iff:
  "finder_step reg isv s = Return tbl \<longleftrightarrow>
   insn_queue s = [] \<and> insn_queue_push_buffer s = [] \<and> result s = tbl"
  by (auto simp add: finder_step_def process_instruction_not_failed)

lemma finder_loop_outcome:
  "finder_loop reg isv s = outcome \<longleftrightarrow>
   (\<exists>s'. finder_reaches reg isv s s' \<and> finder_step reg isv s' = outcome \<and> (\<forall>s''. outcome \<noteq> Next s''))"
proof
  assume "finder_loop reg isv s = outcome"
  then show "\<exists>s'. finder_reaches reg isv s s' \<and> finder_step reg isv s' = outcome
      \<and> (\<forall>s''. outcome \<noteq> Next s'')"
  proof (induction reg isv s rule: finder_loop.induct)
    case (1 reg isv s)
    show ?case
    proof (cases "finder_step reg isv s")
      case (Next s1)
      with "1.prems" have "finder_loop reg isv s1 = outcome"
        by (simp add: finder_loop_unfold [of reg isv s])
      from "1.IH" [OF Next this] obtain s' where "finder_reaches reg isv s1 s'"
        and "finder_step reg isv s' = outcome" and "\<forall>s''. outcome \<noteq> Next s''" by blast
      with Next show ?thesis by (blast intro: finder_reaches.later)
    next
      case (Return tbl)
      with "1.prems" have "finder_step reg isv s = outcome" "\<forall>s''. outcome \<noteq> Next s''"
        by (auto simp add: finder_loop_unfold [of reg isv s])
      then show ?thesis by (blast intro: finder_reaches.here)
    next
      case FailedToInferTypes
      with "1.prems" have "finder_step reg isv s = outcome" "\<forall>s''. outcome \<noteq> Next s''"
        by (auto simp add: finder_loop_unfold [of reg isv s])
      then show ?thesis by (blast intro: finder_reaches.here)
    next
      case (Propagate e)
      with "1.prems" have "finder_step reg isv s = outcome" "\<forall>s''. outcome \<noteq> Next s''"
        by (auto simp add: finder_loop_unfold [of reg isv s])
      then show ?thesis by (blast intro: finder_reaches.here)
    qed
  qed
next
  assume "\<exists>s'. finder_reaches reg isv s s' \<and> finder_step reg isv s' = outcome
      \<and> (\<forall>s''. outcome \<noteq> Next s'')"
  then obtain s' where r: "finder_reaches reg isv s s'"
    and o: "finder_step reg isv s' = outcome" and n: "\<forall>s''. outcome \<noteq> Next s''" by blast
  from r o n show "finder_loop reg isv s = outcome"
  proof (induction rule: finder_reaches.induct)
    case (here s)
    then show ?case
      by (cases outcome) (simp_all add: finder_loop_unfold [of reg isv s])
  next
    case (later s s1 s')
    then show ?case by (simp add: finder_loop_unfold [of reg isv s])
  qed
qed

lemma process_instruction_unable:
  "process_instruction reg isv s \<noteq> Propagate UnableToInferKind"
  by (cases "last (insn_queue s)")
     (auto simp add: process_instruction_def set_kind_def setdefault_table_def Let_def
        split: instruction.splits sum.splits if_splits prod.splits option.splits)

lemma finder_step_unable: "finder_step reg isv s \<noteq> Propagate UnableToInferKind"
  by (simp add: finder_step_def process_instruction_unable)

lemma finder_step_unresolved:
  assumes "finder_step reg isv s = Next s'"
  shows "unresolved s' < unresolved s
       \<or> unresolved s' = unresolved s \<and> made_progress s' = (made_progress s \<and> insn_queue s \<noteq> [])"
proof (cases "insn_queue s = []")
  case False
  with assms have "process_instruction reg isv s = Next s'"
    by (simp add: finder_step_def)
  from process_instruction_measure [OF this False] False show ?thesis by auto
next
  case True
  let ?t = "s\<lparr>insn_queue := insn_queue_push_buffer s, insn_queue_push_buffer := [],
                made_progress := False\<rparr>"
  from True assms have buf: "insn_queue_push_buffer s \<noteq> []"
    and p: "process_instruction reg isv ?t = Next s'"
    by (auto simp add: finder_step_def split: if_splits)
  from buf have "insn_queue ?t \<noteq> []" by simp
  from process_instruction_measure [OF p this] True show ?thesis
    by (auto simp add: unresolved_def)
qed

lemma finder_reaches_below:
  assumes "finder_reaches reg isv x s'"
    and "unresolved x < n \<or> unresolved x = n \<and> \<not> made_progress x"
  shows "unresolved s' < n \<or> unresolved s' = n \<and> \<not> made_progress s'"
  using assms
proof (induction rule: finder_reaches.induct)
  case (here s)
  then show ?case .
next
  case (later s s1 s')
  from finder_step_unresolved [OF later.hyps(1)] later.prems
  have "unresolved s1 < n \<or> unresolved s1 = n \<and> \<not> made_progress s1" by auto
  then show ?case by (rule later.IH)
qed

lemma pass_with_progress_reduces:
  assumes "insn_queue s = []" and "finder_step reg isv s = Next s1"
    and "finder_reaches reg isv s1 s'" and "made_progress s'"
  shows "unresolved s' < unresolved s"
proof -
  from finder_step_unresolved [OF assms(2)] assms(1)
  have "unresolved s1 < unresolved s \<or> unresolved s1 = unresolved s \<and> \<not> made_progress s1"
    by auto
  from finder_reaches_below [OF assms(3) this] assms(4) show ?thesis by auto
qed

text \<open>
  Claim C5, as amended. For every list of functions and instructions the solver ends
  with a final outcome: the loop is a total function, by a measure that decreases with
  every iteration. It returns the table exactly when it reaches a loop head with both
  queues empty. It fails with "failed to infer types" exactly when it reaches a loop
  head with the primary queue empty, the overflow buffer non-empty and no progress
  recorded. Any other failure is an exception raised while an instruction is processed
  (a hard inference error, an inconsistent kind, the unsupported AssignSolved), never
  cannot-infer-yet. No iteration increases the number of unresolved instructions, and
  whenever progress is recorded after the start of a pass, fewer instructions are
  unresolved than at the start of that pass; the same holds from any point at which no
  progress is recorded, such as the start of the first pass.
\<close>

theorem kind_finder_terminates:
  "(\<forall>s'. SymbolKindFinder reg isv names functions \<noteq> Next s')
   \<and> (\<forall>s'. finder_loop reg isv s \<noteq> Next s')
   \<and> (finder_loop reg isv s = FailedToInferTypes \<longleftrightarrow>
        (\<exists>s'. finder_reaches reg isv s s' \<and> insn_queue s' = []
              \<and> insn_queue_push_buffer s' \<noteq> [] \<and> \<not> made_progress s'))
   \<and> (finder_loop reg isv s = Return tbl \<longleftrightarrow>
        (\<exists>s'. finder_reaches reg isv s s' \<and> insn_queue s' = []
              \<and> insn_queue_push_buffer s' = [] \<and> result s' = tbl))
   \<and> (finder_loop reg isv s = Propagate e \<longleftrightarrow>
        (\<exists>s'. finder_reaches reg isv s s' \<and> finder_step reg isv s' = Propagate e))
   \<and> finder_loop reg isv s \<noteq> Propagate UnableToInferKind
   \<and> (finder_step reg isv s = Next s1 \<longrightarrow> unresolved s1 \<le> unresolved s)
   \<and> (insn_queue s = [] \<and> finder_step reg isv s = Next s1 \<and> finder_reaches reg isv s1 s'
        \<and> made_progress s' \<longrightarrow> unresolved s' < unresolved s)
   \<and> (\<not> made_progress s \<and> finder_reaches reg isv s s' \<and> made_progress s'
        \<longrightarrow> unresolved s' < unresolved s)"
proof -
  have t0: "\<forall>s'. SymbolKindFinder reg isv names functions \<noteq> Next s'"
    by (simp add: SymbolKindFinder_def finder_loop_final)
  have t1: "\<forall>s'. finder_loop reg isv s \<noteq> Next s'"
    by (simp add: finder_loop_final)
  have t2: "finder_loop reg isv s = FailedToInferTypes \<longleftrightarrow>
        (\<exists>s'. finder_reaches reg isv s s' \<and> insn_queue s' = []
              \<and> insn_queue_push_buffer s' \<noteq> [] \<and> \<not> made_progress s')"
    by (simp add: finder_loop_outcome [of reg isv s FailedToInferTypes] finder_step_failed_iff)
  have t3: "finder_loop reg isv s = Return tbl \<longleftrightarrow>
        (\<exists>s'. finder_reaches reg isv s s' \<and> insn_queue s' = []
              \<and> insn_queue_push_buffer s' = [] \<and> result s' = tbl)"
    by (simp add: finder_loop_outcome [of reg isv s "Return tbl"] finder_step_return_iff)
  have t4: "finder_loop reg isv s = Propagate e \<longleftrightarrow>
        (\<exists>s'. finder_reaches reg isv s s' \<and> finder_step reg isv s' = Propagate e)"
    by (simp add: finder_loop_outcome [of reg isv s "Propagate e"])
  have t5: "finder_loop reg isv s \<noteq> Propagate UnableToInferKind"
    by (simp add: finder_loop_outcome [of reg isv s "Propagate UnableToInferKind"]
          finder_step_unable)
  have t6: "finder_step reg isv s = Next s1 \<longrightarrow> unresolved s1 \<le> unresolved s"
    using finder_step_unresolved [of reg isv s s1] by auto
  have t7: "insn_queue s = [] \<and> finder_step reg isv s = Next s1 \<and> finder_reaches reg isv s1 s'
        \<and> made_progress s' \<longrightarrow> unresolved s' < unresolved s"
    using pass_with_progress_reduces by blast
  have t8: "\<not> made_progress s \<and> finder_reaches reg isv s s' \<and> made_progress s'
        \<longrightarrow> unresolved s' < unresolved s"
    using finder_reaches_below [of reg isv s s' "unresolved s"] by auto
  from t0 t1 t2 t3 t4 t5 t6 t7 t8 show ?thesis by blast
qed

lemmas finder_eval = SymbolKindFinder_def finder_loop_unfold finder_step_def
  process_instruction_def set_kind_def setdefault_table_def SymbolKindTable_init_def
  unify_def Let_def

text \<open>
  The claim as stated has the solver fail only when a pass makes no progress. A hard
  inference error is fatal as well: a single instruction \<^verbatim>\<open>x := not 1\<close> aborts the
  solver with ValueError, and a single AssignSolved with TODO, on the first iteration.
\<close>

theorem kind_finder_hard_error_is_fatal:
  "SymbolKindFinder Map.empty (prefix ''<'') [''f'']
      [[AssignExpression ''x'' (LogicalNot (Constant (PyReal 1)))]]
     = Propagate (ValueError ''logical operations are undefined'')
   \<and> SymbolKindFinder Map.empty (prefix ''<'') [''f''] [[AssignSolved]] = Propagate TODO"
  by (simp add: finder_eval)

theorem kind_finder_terminates_witness:
  "SymbolKindFinder Map.empty (prefix ''<'') [''f'']
      [[AssignExpression ''y'' (Product [Variable ''x'', Constant (PyReal 2)])]]
     = FailedToInferTypes
   \<and> (\<exists>s'. finder_reaches Map.empty (prefix ''<'')
              \<lparr> insn_queue = [(''f'', AssignExpression ''y''
                                       (Product [Variable ''x'', Constant (PyReal 2)]))],
                insn_queue_push_buffer = [], made_progress = False,
                result = SymbolKindTable_init \<rparr> s'
           \<and> insn_queue s' = [] \<and> insn_queue_push_buffer s' \<noteq> [] \<and> \<not> made_progress s')
   \<and> (\<exists>tbl. SymbolKindFinder Map.empty (prefix ''<'') [''f'']
               [[AssignExpression ''x'' (Constant (PyReal 1)),
                 AssignExpression ''y'' (Product [Variable ''x'', Constant (PyReal 2)])]]
             = Return tbl
           \<and> recorded_kind (prefix ''<'') tbl ''f'' ''y'' = Some (Some (Scalar True)))"
proof -
  let ?s = "\<lparr> insn_queue = [(''f'', AssignExpression ''y''
                                       (Product [Variable ''x'', Constant (PyReal 2)]))],
                insn_queue_push_buffer = [], made_progress = False,
                result = SymbolKindTable_init \<rparr>"
  have f: "finder_loop Map.empty (prefix ''<'') ?s = FailedToInferTypes"
    by (simp add: finder_eval)
  have a: "SymbolKindFinder Map.empty (prefix ''<'') [''f'']
      [[AssignExpression ''y'' (Product [Variable ''x'', Constant (PyReal 2)])]]
     = FailedToInferTypes"
    by (simp add: finder_eval)
  have b: "\<exists>s'. finder_reaches Map.empty (prefix ''<'') ?s s'
           \<and> insn_queue s' = [] \<and> insn_queue_push_buffer s' \<noteq> [] \<and> \<not> made_progress s'"
    using kind_finder_terminates [where reg = Map.empty and isv = "prefix ''<''" and s = ?s] f
    by blast
  have c: "\<exists>tbl. SymbolKindFinder Map.empty (prefix ''<'') [''f'']
               [[AssignExpression ''x'' (Constant (PyReal 1)),
                 AssignExpression ''y'' (Product [Variable ''x'', Constant (PyReal 2)])]]
             = Return tbl
           \<and> recorded_kind (prefix ''<'') tbl ''f'' ''y'' = Some (Some (Scalar True))"
    by (simp add: finder_eval recorded_kind_def)
  from a b c show ?thesis by blast
qed

section \<open>Constant collapsing on a sum with a single child\<close>

text \<open>
  Claim C1 says that the collapsed expression, evaluated after its emitted assignments,
  has the value of the original expression, for every expression. On a sum or product
  whose only child is not constant, \<^verbatim>\<open>map_commut_assoc\<close> reaches
  \<^verbatim>\<open>return self.non_constants[0]\<close>, an attribute the mapper does not have (the local
  variable \<^verbatim>\<open>non_constants\<close> is meant): \<^verbatim>\<open>collapse_constants\<close> raises AttributeError,
  whatever the generator of fresh variables, while the expression itself evaluates to
  \<^verbatim>\<open>0 + x\<close>.
\<close>

theorem collapse_constants_single_child_sum:
  "collapse_constants (Sum [Variable ''x'']) [''x''] new_var_func
     = Inl (AttributeError ''non_constants'')
   \<and> collapse_constants (Product [Variable ''x'']) [''x''] new_var_func
     = Inl (AttributeError ''non_constants'')
   \<and> evaluate ops [''x'' \<mapsto> v] functions (Sum [Variable ''x'']) = py_add ops (py_int ops 0) v
   \<and> evaluate (float_ops apply) [''x'' \<mapsto> Num 3] functions (Sum [Variable ''x'']) = Inr (Num 3)"
  by (simp add: collapse_constants_def combine_def is_constant_def is_atomic_def rec_with_def
        finish_commut_assoc_def float_ops_def float_binop_def round64_eval split: sum.splits)

text \<open>
  On a sum with two constant children and a free variable the constants are hoisted
  into one fresh variable, and the collapsed expression, evaluated after the
  assignment, has the value of the original.
\<close>

lemma collapse_example:
  "collapse_constants (Sum [Variable ''x'', Constant (PyReal 1), Constant (PyReal 2)]) [''x'']
      (\<lambda>i. Variable (''<c>'' @ replicate i CHR ''_''))
   = Inr (Sum [Variable ''<c>'', Variable ''x''],
          [(Variable ''<c>'', Sum [Constant (PyReal 1), Constant (PyReal 2)])])"
  by (simp add: collapse_constants_def combine_def is_constant_def is_atomic_def rec_with_def
        finish_commut_assoc_def assign_new_var_def Let_def)

lemma collapse_example_value:
  "execute_assignments (float_ops apply) [''x'' \<mapsto> Num 5] Map.empty
      [(Variable ''<c>'', Sum [Constant (PyReal 1), Constant (PyReal 2)])]
     = Inr [''x'' \<mapsto> Num 5, ''<c>'' \<mapsto> Num 3]
   \<and> evaluate (float_ops apply) [''x'' \<mapsto> Num 5, ''<c>'' \<mapsto> Num 3] Map.empty
        (Sum [Variable ''<c>'', Variable ''x'']) = Inr (Num 8)
   \<and> evaluate (float_ops apply) [''x'' \<mapsto> Num 5] Map.empty
        (Sum [Variable ''x'', Constant (PyReal 1), Constant (PyReal 2)]) = Inr (Num 8)"
  by (simp add: function_name_def float_ops_def float_binop_def round64_eval)

end
